theory Spec2Isabelle
  imports
    Main
    "HOL-Library.AList"
    "HOL-Library.Multiset"
    "HOL-Library.Char_ord"
    "HOL-Library.List_Lexorder"
begin

section \<open>The deal-flow backend: request handlers over an external store\<close>

text \<open>
  The repository holds three revisions of one Express server. \<^verbatim>\<open>src/server.js\<close> is the
  named file; \<^verbatim>\<open>src/unnamed/part_000\<close> is an earlier revision (the mail transport is built
  unconditionally, there is no external-webhook endpoint) and \<^verbatim>\<open>src/unnamed/part_001\<close> a
  later one (a null guard in the admin listing, a profile fetch that falls back to a
  default profile). Handlers that are the same in all revisions are modelled once;
  handlers that differ are modelled once per revision, the plain name being the one of
  \<^verbatim>\<open>server.js\<close>. The health check and the list, create and update routes of the deal
  table are not modelled: nothing below is about them.

  Every handler is a function from the process environment, the request and the state of
  the outside world to a response and the new state of the world. An exception thrown
  inside a handler's \<^verbatim>\<open>try\<close> block is the value \<open>Inl message\<close>; the \<^verbatim>\<open>catch\<close> block is a
  case on it.
\<close>

subsection \<open>JSON values and JavaScript truthiness\<close>

text \<open>
  Numbers are integers here: no handler computes with a number, they are only stored,
  compared for identity and tested for truthiness. An object is an association list in
  key order. A property read that yields \<^verbatim>\<open>undefined\<close> is \<open>None\<close>.
\<close>

datatype json =
    JNull
  | JBool bool
  | JNum int
  | JStr string
  | JArr "json list"
  | JObj "(string \<times> json) list"

type_synonym row = "(string \<times> json) list"

definition get_prop :: "row \<Rightarrow> string \<Rightarrow> json option" where
  "get_prop obj k = map_of obj k"

fun truthy :: "json option \<Rightarrow> bool" where
  "truthy None = False"
| "truthy (Some JNull) = False"
| "truthy (Some (JBool b)) = b"
| "truthy (Some (JNum n)) = (if n = 0 then False else True)"
| "truthy (Some (JStr s)) = (if s = [] then False else True)"
| "truthy (Some (JArr xs)) = True"
| "truthy (Some (JObj kvs)) = True"

text \<open>Truthiness of a string that may be undefined (a header, an environment variable).\<close>

fun truthy_str :: "string option \<Rightarrow> bool" where
  "truthy_str None = False"
| "truthy_str (Some s) = (if s = [] then False else True)"

text \<open>\<^verbatim>\<open>x || null\<close>, and \<^verbatim>\<open>s || fallback\<close> on strings.\<close>

definition or_null :: "json option \<Rightarrow> json" where
  "or_null x = (if truthy x then (case x of Some v \<Rightarrow> v | None \<Rightarrow> JNull) else JNull)"

definition or_else :: "string option \<Rightarrow> string \<Rightarrow> string" where
  "or_else x d = (if truthy_str x then (case x of Some s \<Rightarrow> s | None \<Rightarrow> d) else d)"

text \<open>
  An object literal as \<^verbatim>\<open>JSON.stringify\<close> sends it: a property whose value is
  \<^verbatim>\<open>undefined\<close> is left out. A column that receives no value is \<open>JNull\<close>.
\<close>

fun literal :: "(string \<times> json option) list \<Rightarrow> row" where
  "literal [] = []"
| "literal ((k, None) # kvs) = literal kvs"
| "literal ((k, Some v) # kvs) = (k, v) # literal kvs"

definition column :: "json option \<Rightarrow> json" where
  "column x = (case x of None \<Rightarrow> JNull | Some v \<Rightarrow> v)"

definition starts_with :: "string \<Rightarrow> string \<Rightarrow> bool" where
  "starts_with p s = (take (length p) s = p)"

text \<open>\<^verbatim>\<open>email.split('@')[0]\<close>: the text before the first \<open>@\<close>, all of it when there is none.\<close>

definition local_part :: "string \<Rightarrow> string" where
  "local_part email = takeWhile (\<lambda>c. c \<noteq> CHR ''@'') email"

subsection \<open>Requests, responses, rows\<close>

record request =
  authorization :: "string option"
  x_webhook_secret :: "string option"
  user_agent :: "string option"
  params_id :: json
  body :: row

text \<open>
  \<open>params_id\<close> is \<^verbatim>\<open>req.params.id\<close> as the store's filter reads it. \<open>body\<close> is
  \<^verbatim>\<open>req.body\<close>, a JSON object (the body parser's default when there is none is the empty
  object).
\<close>

record user =
  user_id :: string
  user_email :: string
  user_full_name :: "string option"

text \<open>
  \<^verbatim>\<open>req.user\<close>: the identity provider's record. \<open>user_full_name\<close> is
  \<^verbatim>\<open>user_metadata?.full_name\<close>. The record is taken to carry an email address, as the
  handlers do.
\<close>

record user_profile =
  profile_id :: string
  username :: string
  email :: string
  role :: string
  full_name :: "string option"

record log_entry =
  business_idea_id :: json
  action :: string
  triggered_by :: string
  log_status :: string
  details :: json

record webhook_log =
  entry :: log_entry
  log_id :: nat
  triggered_at :: nat

record mail =
  mail_from :: "string option"
  mail_to :: "json option"
  mail_deal :: row

text \<open>
  A message is kept as its sender, its recipient and the deal its subject and HTML body
  are rendered from (the rendering formats a number by locale and is not modelled).
\<close>

datatype payload =
    Error_body string
  | Message_body string
  | Created_body string row
  | Received_body string row nat
  | Triggered_body string "json option"
  | Logs_body "(webhook_log \<times> row option) list"
  | Profile_body user_profile
  | Profiles_body "user_profile list"

record response =
  status :: nat
  payload :: payload

definition reply :: "nat \<Rightarrow> payload \<Rightarrow> response" where
  "reply code p = \<lparr>status = code, payload = p\<rparr>"

subsection \<open>The process environment and the services behind it\<close>

datatype auth_outcome =
    Auth_throws
  | Auth_returns "user option" "string option"

datatype fetch_outcome =
    Fetch_rejects string
  | Fetch_response bool string

datatype transport = Transport string string string

record env =
  WEBHOOK_SECRET :: "string option"
  SMTP_HOST :: "string option"
  SMTP_USER :: "string option"
  SMTP_PASSWORD :: "string option"
  SMTP_FROM :: "string option"
  getUser :: "string \<Rightarrow> auth_outcome"
  sendMail :: "mail \<Rightarrow> string option"
  fetch :: "json \<Rightarrow> fetch_outcome"
  now :: nat

text \<open>
  \<open>getUser\<close>, \<open>sendMail\<close> and \<open>fetch\<close> are the answers of the identity provider, the
  mail relay and the remote webhook: \<open>getUser\<close> throws or returns a user and an error,
  \<open>sendMail\<close> returns the message of its rejection or \<open>None\<close>, \<open>fetch\<close> rejects or
  returns \<^verbatim>\<open>response.ok\<close> and \<^verbatim>\<open>response.statusText\<close>. \<open>now\<close> is the server's clock.
\<close>

text \<open>
  \<^verbatim>\<open>let transporter = null; if (SMTP_HOST && SMTP_USER && SMTP_PASSWORD) transporter = ...\<close>
\<close>

definition transporter :: "env \<Rightarrow> transport option" where
  "transporter e =
     (if truthy_str (SMTP_HOST e) \<and> truthy_str (SMTP_USER e) \<and> truthy_str (SMTP_PASSWORD e)
      then Some (Transport (or_else (SMTP_HOST e) []) (or_else (SMTP_USER e) [])
                   (or_else (SMTP_PASSWORD e) []))
      else None)"

subsection \<open>The external store\<close>

text \<open>
  Modelled from the spec: the external relational store and its client, which are a
  service and a library outside the repository. The store holds three tables. Every
  call of the client is recorded in \<open>trace\<close> and consumes one entry of \<open>faults\<close>, the
  script of the store's failures: \<open>Some message\<close> makes the call fail with that message
  and change nothing, \<open>None\<close> (or an exhausted script) lets it run. The client reports a
  failure in the \<^verbatim>\<open>error\<close> field of its result; it does not throw. The store generates
  \<^verbatim>\<open>id\<close> and the timestamps of a row that does not supply them.
\<close>

datatype table = Business_ideas | Webhook_logs | User_profiles

datatype event =
    Auth_getUser string
  | Select_from table
  | Insert_deal row
  | Insert_log log_entry
  | Insert_profile user_profile
  | Delete_deal json
  | Send_mail mail
  | Http_post json "(string \<times> string) list" row

record world =
  business_ideas :: "row list"
  webhook_logs :: "webhook_log list"
  user_profiles :: "user_profile list"
  next_id :: nat
  clock :: nat
  faults :: "string option list"
  trace :: "event list"

definition emit :: "event \<Rightarrow> world \<Rightarrow> world" where
  "emit ev w = w\<lparr>trace := trace w @ [ev]\<rparr>"

definition next_fault :: "world \<Rightarrow> string option" where
  "next_fault w = (case faults w of [] \<Rightarrow> None | f # fs \<Rightarrow> f)"

definition store_call :: "event \<Rightarrow> world \<Rightarrow> string option \<times> world" where
  "store_call ev w = (next_fault w, emit ev (w\<lparr>faults := tl (faults w)\<rparr>))"

text \<open>\<^verbatim>\<open>.single()\<close>: an error unless exactly one row is selected.\<close>

definition single :: "'a list \<Rightarrow> string + 'a" where
  "single rs =
     (case rs of
        [r] \<Rightarrow> Inr r
      | _ \<Rightarrow> Inl ''JSON object requested, multiple (or no) rows returned'')"

text \<open>\<^verbatim>\<open>.eq('id', v)\<close> on a deal row; an undefined \<open>v\<close> matches nothing.\<close>

definition has_id :: "json option \<Rightarrow> row \<Rightarrow> bool" where
  "has_id v r = (case v of None \<Rightarrow> False | Some i \<Rightarrow> get_prop r ''id'' = Some i)"

definition with_default :: "string \<Rightarrow> json \<Rightarrow> row \<Rightarrow> row" where
  "with_default k v r = (case get_prop r k of None \<Rightarrow> r @ [(k, v)] | Some x \<Rightarrow> r)"

text \<open>\<^verbatim>\<open>from('business_ideas').select('*').eq('id', v).single()\<close>\<close>

definition select_deal :: "json option \<Rightarrow> world \<Rightarrow> (string + row) \<times> world" where
  "select_deal v w =
     (case store_call (Select_from Business_ideas) w of
        (Some msg, w1) \<Rightarrow> (Inl msg, w1)
      | (None, w1) \<Rightarrow> (single (filter (has_id v) (business_ideas w1)), w1))"

text \<open>\<^verbatim>\<open>from('business_ideas').insert([r]).select().single()\<close>\<close>

definition insert_deal :: "row \<Rightarrow> world \<Rightarrow> (string + row) \<times> world" where
  "insert_deal r w =
     (case store_call (Insert_deal r) w of
        (Some msg, w1) \<Rightarrow> (Inl msg, w1)
      | (None, w1) \<Rightarrow>
          (let stored = with_default ''created_at'' (JNum (int (clock w1)))
                          (with_default ''id'' (JNum (int (next_id w1))) r)
           in (Inr stored,
               w1\<lparr>business_ideas := business_ideas w1 @ [stored],
                  next_id := Suc (next_id w1)\<rparr>)))"

text \<open>
  \<^verbatim>\<open>from('business_ideas').delete().eq('id', v)\<close>: no error when no row matches.
\<close>

definition delete_deal_rows :: "json \<Rightarrow> world \<Rightarrow> string option \<times> world" where
  "delete_deal_rows v w =
     (case store_call (Delete_deal v) w of
        (Some msg, w1) \<Rightarrow> (Some msg, w1)
      | (None, w1) \<Rightarrow>
          (None, w1\<lparr>business_ideas := filter (\<lambda>r. \<not> has_id (Some v) r) (business_ideas w1)\<rparr>))"

text \<open>\<^verbatim>\<open>from('webhook_logs').insert([e])\<close>\<close>

definition insert_log :: "log_entry \<Rightarrow> world \<Rightarrow> string option \<times> world" where
  "insert_log e w =
     (case store_call (Insert_log e) w of
        (Some msg, w1) \<Rightarrow> (Some msg, w1)
      | (None, w1) \<Rightarrow>
          (None,
           w1\<lparr>webhook_logs :=
                 webhook_logs w1 @ [\<lparr>entry = e, log_id = next_id w1, triggered_at = clock w1\<rparr>],
              next_id := Suc (next_id w1)\<rparr>))"

text \<open>The embedded resource \<^verbatim>\<open>business_ideas(*)\<close>: the deal a log row refers to, if any.\<close>

definition joined_deal :: "row list \<Rightarrow> webhook_log \<Rightarrow> row option" where
  "joined_deal deals l =
     (if business_idea_id (entry l) = JNull then None
      else find (has_id (Some (business_idea_id (entry l)))) deals)"

text \<open>
  \<^verbatim>\<open>from('webhook_logs').select('*, business_ideas(*)')
     .order('triggered_at', { ascending: false }).limit(n)\<close>
\<close>

definition select_logs :: "nat \<Rightarrow> world \<Rightarrow> (string + (webhook_log \<times> row option) list) \<times> world"
  where
  "select_logs n w =
     (case store_call (Select_from Webhook_logs) w of
        (Some msg, w1) \<Rightarrow> (Inl msg, w1)
      | (None, w1) \<Rightarrow>
          (Inr (map (\<lambda>l. (l, joined_deal (business_ideas w1) l))
                  (take n (rev (sort_key triggered_at (webhook_logs w1))))),
           w1))"

text \<open>\<^verbatim>\<open>from('user_profiles').select(...).eq('id', uid).single()\<close>\<close>

definition select_profile :: "string \<Rightarrow> world \<Rightarrow> (string + user_profile) \<times> world" where
  "select_profile uid w =
     (case store_call (Select_from User_profiles) w of
        (Some msg, w1) \<Rightarrow> (Inl msg, w1)
      | (None, w1) \<Rightarrow> (single (filter (\<lambda>p. profile_id p = uid) (user_profiles w1)), w1))"

text \<open>\<^verbatim>\<open>from('user_profiles').select('*').order('username')\<close>\<close>

definition select_profiles :: "world \<Rightarrow> (string + user_profile list) \<times> world" where
  "select_profiles w =
     (case store_call (Select_from User_profiles) w of
        (Some msg, w1) \<Rightarrow> (Inl msg, w1)
      | (None, w1) \<Rightarrow> (Inr (sort_key username (user_profiles w1)), w1))"

text \<open>
  \<^verbatim>\<open>from('user_profiles').insert([p]).select().single()\<close>: \<^verbatim>\<open>id\<close> is the primary key, so
  a second row with the same id is refused.
\<close>

definition insert_profile :: "user_profile \<Rightarrow> world \<Rightarrow> (string + user_profile) \<times> world" where
  "insert_profile p w =
     (case store_call (Insert_profile p) w of
        (Some msg, w1) \<Rightarrow> (Inl msg, w1)
      | (None, w1) \<Rightarrow>
          (if profile_id p \<in> set (map profile_id (user_profiles w1))
           then (Inl ''duplicate key value violates unique constraint'', w1)
           else (Inr p, w1\<lparr>user_profiles := user_profiles w1 @ [p]\<rparr>)))"

subsection \<open>The authorization gate\<close>

text \<open>
  \<^verbatim>\<open>verifyAuth\<close> (the same in all three revisions). \<open>Inl\<close> is the response the middleware
  sends itself; \<open>Inr\<close> is \<^verbatim>\<open>req.user\<close>, with which \<^verbatim>\<open>next()\<close> runs the handler.
\<close>

definition verifyAuth :: "env \<Rightarrow> request \<Rightarrow> world \<Rightarrow> (response + user) \<times> world" where
  "verifyAuth e req w =
     (let authHeader = authorization req in
      if \<not> (truthy_str authHeader \<and> starts_with ''Bearer '' (or_else authHeader []))
      then (Inl (reply 401 (Error_body ''No token provided'')), w)
      else
        (let token = drop 7 (or_else authHeader []);
             w1 = emit (Auth_getUser token) w
         in case getUser e token of
              Auth_throws \<Rightarrow> (Inl (reply 401 (Error_body ''Authentication failed'')), w1)
            | Auth_returns u err \<Rightarrow>
                (case (err, u) of
                   (None, Some found) \<Rightarrow> (Inr found, w1)
                 | _ \<Rightarrow> (Inl (reply 401 (Error_body ''Invalid token'')), w1))))"

text \<open>A route registered as \<^verbatim>\<open>app.METHOD(path, verifyAuth, handler)\<close>.\<close>

definition protected ::
  "env \<Rightarrow> (user \<Rightarrow> request \<Rightarrow> world \<Rightarrow> response \<times> world) \<Rightarrow> request \<Rightarrow> world
     \<Rightarrow> response \<times> world" where
  "protected e handler req w =
     (case verifyAuth e req w of
        (Inl r, w1) \<Rightarrow> (r, w1)
      | (Inr u, w1) \<Rightarrow> handler u req w1)"

text \<open>\<^verbatim>\<open>catch (error) { res.status(500).json({ error: error.message }) }\<close>\<close>

definition catch_500 :: "(string + response) \<times> world \<Rightarrow> response \<times> world" where
  "catch_500 rw =
     (case rw of
        (Inl msg, w) \<Rightarrow> (reply 500 (Error_body msg), w)
      | (Inr r, w) \<Rightarrow> (r, w))"

subsection \<open>Deleting a deal\<close>

text \<open>\<^verbatim>\<open>DELETE /api/deals/:id\<close>\<close>

definition delete_deal :: "user \<Rightarrow> request \<Rightarrow> world \<Rightarrow> response \<times> world" where
  "delete_deal u req w =
     catch_500
       (case delete_deal_rows (params_id req) w of
          (Some err, w1) \<Rightarrow> (Inl err, w1)
        | (None, w1) \<Rightarrow> (Inr (reply 200 (Message_body ''Deal deleted successfully'')), w1))"

subsection \<open>Direct-send outreach\<close>

text \<open>
  The part of \<^verbatim>\<open>POST /api/webhook/send-outreach\<close> that all revisions share: fetch the
  deal, send the mail, write the log.
\<close>

definition outreach_log :: "user \<Rightarrow> json option \<Rightarrow> row \<Rightarrow> log_entry" where
  "outreach_log u dealId deal =
     \<lparr>business_idea_id = column dealId,
      action = ''send_outreach'',
      triggered_by = user_email u,
      log_status = ''success'',
      details = JObj (literal [(''email_sent_to'', get_prop deal ''contact_email'')])\<rparr>"

definition outreach_mail :: "env \<Rightarrow> row \<Rightarrow> mail" where
  "outreach_mail e deal =
     \<lparr>mail_from = SMTP_FROM e, mail_to = get_prop deal ''contact_email'', mail_deal = deal\<rparr>"

definition fetch_send_log ::
  "env \<Rightarrow> user \<Rightarrow> json option \<Rightarrow> world \<Rightarrow> (string + response) \<times> world" where
  "fetch_send_log e u dealId w =
     (case select_deal dealId w of
        (Inl dealError, w1) \<Rightarrow> (Inl dealError, w1)
      | (Inr deal, w1) \<Rightarrow>
          (let m = outreach_mail e deal;
               w2 = emit (Send_mail m) w1
           in case sendMail e m of
                Some err \<Rightarrow> (Inl err, w2)
              | None \<Rightarrow>
                  (case insert_log (outreach_log u dealId deal) w2 of
                     (ignored, w3) \<Rightarrow>
                       (Inr (reply 200 (Message_body ''Outreach email sent successfully'')),
                        w3))))"

text \<open>\<^verbatim>\<open>server.js\<close> (and \<^verbatim>\<open>part_001\<close>): the transport is checked first.\<close>

definition send_outreach :: "env \<Rightarrow> user \<Rightarrow> request \<Rightarrow> world \<Rightarrow> response \<times> world" where
  "send_outreach e u req w =
     catch_500
       (let dealId = get_prop (body req) ''dealId'' in
        case transporter e of
          None \<Rightarrow>
            (Inr (reply 503
                    (Error_body ''Email service not configured. Use external webhook instead.'')),
             w)
        | Some t \<Rightarrow> fetch_send_log e u dealId w)"

text \<open>
  \<^verbatim>\<open>part_000\<close>: the transport is a constant built at start-up whatever the environment
  holds, and the handler has no check of it.
\<close>

definition send_outreach_unguarded :: "env \<Rightarrow> user \<Rightarrow> request \<Rightarrow> world \<Rightarrow> response \<times> world"
  where
  "send_outreach_unguarded e u req w =
     catch_500
       (let dealId = get_prop (body req) ''dealId'' in
        fetch_send_log e u dealId w)"

subsection \<open>Form ingestion\<close>

text \<open>
  \<^verbatim>\<open>{ ...req.body, source: 'google_form', stage: 'submitted' }\<close>: a key of the body keeps
  its place and takes the new value, a new key goes last.
\<close>

definition form_row :: "row \<Rightarrow> row" where
  "form_row b =
     AList.update ''stage'' (JStr ''submitted'') (AList.update ''source'' (JStr ''google_form'') b)"

definition form_log :: "row \<Rightarrow> log_entry" where
  "form_log data =
     \<lparr>business_idea_id = column (get_prop data ''id''),
      action = ''form_submission'',
      triggered_by = ''google_form'',
      log_status = ''success'',
      details = JNull\<rparr>"

text \<open>\<^verbatim>\<open>POST /api/webhook/google-form\<close>\<close>

definition google_form :: "request \<Rightarrow> world \<Rightarrow> response \<times> world" where
  "google_form req w =
     catch_500
       (case insert_deal (form_row (body req)) w of
          (Inl err, w1) \<Rightarrow> (Inl err, w1)
        | (Inr data, w1) \<Rightarrow>
            (case insert_log (form_log data) w1 of
               (ignored, w2) \<Rightarrow>
                 (Inr (reply 201 (Created_body ''Deal created from form'' data)), w2)))"

subsection \<open>The inbound external webhook\<close>

definition external_log :: "request \<Rightarrow> log_entry" where
  "external_log req =
     \<lparr>business_idea_id = or_null (get_prop (body req) ''dealId''),
      action = ''outreach_external'',
      triggered_by = ''make_com_or_ghl'',
      log_status = ''success'',
      details =
        JObj (literal
          [(''email_sent_to'', get_prop (body req) ''email''),
           (''company_name'', get_prop (body req) ''companyName''),
           (''platform'', Some (JStr (or_else (user_agent req) ''unknown'')))])\<rparr>"

text \<open>The properties the handler destructures from the body and sends back.\<close>

definition echo_keys :: "string list" where
  "echo_keys =
     [''dealId'', ''email'', ''companyName'', ''contactName'', ''industry'',
      ''fundingAmount'', ''description'', ''website'']"

definition echoed :: "request \<Rightarrow> row" where
  "echoed req = literal (map (\<lambda>k. (k, get_prop (body req) k)) echo_keys)"

text \<open>\<^verbatim>\<open>POST /api/webhook/outreach-external\<close> (\<^verbatim>\<open>server.js\<close> and \<^verbatim>\<open>part_001\<close>)\<close>

definition outreach_external :: "env \<Rightarrow> request \<Rightarrow> world \<Rightarrow> response \<times> world" where
  "outreach_external e req w =
     catch_500
       (if truthy_str (WEBHOOK_SECRET e) \<and> x_webhook_secret req \<noteq> WEBHOOK_SECRET e
        then (Inr (reply 401 (Error_body ''Unauthorized'')), w)
        else
          (case insert_log (external_log req) w of
             (ignored, w1) \<Rightarrow>
               (Inr (reply 200
                       (Received_body ''Webhook received successfully'' (echoed req) (now e))),
                w1)))"

subsection \<open>The forwarded trigger\<close>

definition outbound_headers :: "env \<Rightarrow> (string \<times> string) list" where
  "outbound_headers e =
     [(''Content-Type'', ''application/json''),
      (''X-Webhook-Secret'', or_else (WEBHOOK_SECRET e) [])]"

definition outbound_body :: "row \<Rightarrow> row" where
  "outbound_body deal =
     literal
       [(''dealId'', get_prop deal ''id''),
        (''email'', get_prop deal ''contact_email''),
        (''companyName'', get_prop deal ''business_name''),
        (''contactName'', get_prop deal ''contact_name''),
        (''industry'', get_prop deal ''industry''),
        (''fundingAmount'', get_prop deal ''funding_amount_requested''),
        (''description'', get_prop deal ''description''),
        (''website'', get_prop deal ''website_url''),
        (''stage'', get_prop deal ''stage'')]"

text \<open>
  \<^verbatim>\<open>if (webhookUrl) { const response = await fetch(...); if (!response.ok) throw ... }\<close>
\<close>

definition forward :: "env \<Rightarrow> json option \<Rightarrow> row \<Rightarrow> world \<Rightarrow> (string + unit) \<times> world" where
  "forward e webhookUrl deal w =
     (if truthy webhookUrl
      then
        (let w1 = emit (Http_post (column webhookUrl) (outbound_headers e) (outbound_body deal)) w
         in case fetch e (column webhookUrl) of
              Fetch_rejects msg \<Rightarrow> (Inl msg, w1)
            | Fetch_response ok statusText \<Rightarrow>
                (if ok then (Inr (), w1) else (Inl (''Webhook failed: '' @ statusText), w1)))
      else (Inr (), w))"

definition trigger_log :: "user \<Rightarrow> json option \<Rightarrow> json option \<Rightarrow> row \<Rightarrow> log_entry" where
  "trigger_log u dealId webhookUrl deal =
     \<lparr>business_idea_id = column dealId,
      action = ''trigger_outreach'',
      triggered_by = user_email u,
      log_status = ''success'',
      details =
        JObj (literal
          [(''webhook_url'', webhookUrl),
           (''company_name'', get_prop deal ''business_name'')])\<rparr>"

text \<open>\<^verbatim>\<open>POST /api/webhook/trigger-outreach\<close> (\<^verbatim>\<open>server.js\<close> and \<^verbatim>\<open>part_001\<close>)\<close>

definition trigger_outreach :: "env \<Rightarrow> user \<Rightarrow> request \<Rightarrow> world \<Rightarrow> response \<times> world" where
  "trigger_outreach e u req w =
     catch_500
       (let dealId = get_prop (body req) ''dealId'';
            webhookUrl = get_prop (body req) ''webhookUrl''
        in case select_deal dealId w of
             (Inl dealError, w1) \<Rightarrow> (Inl dealError, w1)
           | (Inr deal, w1) \<Rightarrow>
               (case forward e webhookUrl deal w1 of
                  (Inl err, w2) \<Rightarrow> (Inl err, w2)
                | (Inr sent, w2) \<Rightarrow>
                    (case insert_log (trigger_log u dealId webhookUrl deal) w2 of
                       (ignored, w3) \<Rightarrow>
                         (Inr (reply 200
                                 (Triggered_body ''Outreach triggered successfully''
                                    (get_prop deal ''business_name''))),
                          w3))))"

subsection \<open>Listing the webhook log\<close>

text \<open>\<^verbatim>\<open>GET /api/webhooks\<close>\<close>

definition get_webhooks :: "user \<Rightarrow> request \<Rightarrow> world \<Rightarrow> response \<times> world" where
  "get_webhooks u req w =
     catch_500
       (case select_logs 50 w of
          (Inl err, w1) \<Rightarrow> (Inl err, w1)
        | (Inr data, w1) \<Rightarrow> (Inr (reply 200 (Logs_body data)), w1))"

subsection \<open>The caller's profile\<close>

text \<open>\<^verbatim>\<open>GET /api/user/profile\<close> in \<^verbatim>\<open>server.js\<close> (and \<^verbatim>\<open>part_000\<close>)\<close>

definition get_user_profile :: "user \<Rightarrow> request \<Rightarrow> world \<Rightarrow> response \<times> world" where
  "get_user_profile u req w =
     catch_500
       (case select_profile (user_id u) w of
          (Inl err, w1) \<Rightarrow> (Inl err, w1)
        | (Inr data, w1) \<Rightarrow> (Inr (reply 200 (Profile_body data)), w1))"

text \<open>\<^verbatim>\<open>GET /api/user/profile\<close> in \<^verbatim>\<open>part_001\<close>, headed "ROBUST VERSION" there.\<close>

definition newProfile :: "user \<Rightarrow> user_profile" where
  "newProfile u =
     \<lparr>profile_id = user_id u,
      username = local_part (user_email u),
      email = user_email u,
      role = ''user'',
      full_name = (if truthy_str (user_full_name u) then user_full_name u else None)\<rparr>"

definition fallback_profile :: "user \<Rightarrow> user_profile" where
  "fallback_profile u =
     \<lparr>profile_id = user_id u,
      username = local_part (user_email u),
      email = user_email u,
      role = ''user'',
      full_name = None\<rparr>"

definition get_user_profile_robust :: "user \<Rightarrow> request \<Rightarrow> world \<Rightarrow> response \<times> world" where
  "get_user_profile_robust u req w =
     (case
        (case select_profile (user_id u) w of
           (Inr data, w1) \<Rightarrow> (Inr (reply 200 (Profile_body data)) :: string + response, w1)
         | (Inl err, w1) \<Rightarrow>
             (case insert_profile (newProfile u) w1 of
                (Inl createError, w2) \<Rightarrow> (Inr (reply 200 (Profile_body (newProfile u))), w2)
              | (Inr createdProfile, w2) \<Rightarrow> (Inr (reply 200 (Profile_body createdProfile)), w2)))
      of
        (Inl thrown, w') \<Rightarrow> (reply 200 (Profile_body (fallback_profile u)), w')
      | (Inr r, w') \<Rightarrow> (r, w'))"

subsection \<open>The admin-only listing\<close>

text \<open>The message of the \<^verbatim>\<open>TypeError\<close> that reading \<^verbatim>\<open>profile.role\<close> of \<^verbatim>\<open>null\<close> throws.\<close>

definition null_role_error :: string where
  "null_role_error =
     ''Cannot read properties of null (reading '' @ [CHR 0x27] @ ''role'' @ [CHR 0x27] @ '')''"

definition list_profiles :: "world \<Rightarrow> (string + response) \<times> world" where
  "list_profiles w =
     (case select_profiles w of
        (Inl err, w1) \<Rightarrow> (Inl err, w1)
      | (Inr data, w1) \<Rightarrow> (Inr (reply 200 (Profiles_body data)), w1))"

text \<open>
  \<^verbatim>\<open>GET /api/users\<close> in \<^verbatim>\<open>server.js\<close> (and \<^verbatim>\<open>part_000\<close>):
  \<^verbatim>\<open>if (profile.role !== 'admin')\<close>, where \<^verbatim>\<open>profile\<close> is \<^verbatim>\<open>null\<close> when the read selected no
  single row or failed.
\<close>

definition get_users :: "user \<Rightarrow> request \<Rightarrow> world \<Rightarrow> response \<times> world" where
  "get_users u req w =
     catch_500
       (case select_profile (user_id u) w of
          (Inl ignored, w1) \<Rightarrow> (Inl null_role_error, w1)
        | (Inr profile, w1) \<Rightarrow>
            (if role profile = ''admin'' then list_profiles w1
             else (Inr (reply 403 (Error_body ''Admin access required'')), w1)))"

text \<open>
  \<^verbatim>\<open>GET /api/users\<close> in \<^verbatim>\<open>part_001\<close>: \<^verbatim>\<open>if (!profile || profile.role !== 'admin')\<close>.
\<close>

definition get_users_guarded :: "user \<Rightarrow> request \<Rightarrow> world \<Rightarrow> response \<times> world" where
  "get_users_guarded u req w =
     catch_500
       (case select_profile (user_id u) w of
          (Inl ignored, w1) \<Rightarrow> (Inr (reply 403 (Error_body ''Admin access required'')), w1)
        | (Inr profile, w1) \<Rightarrow>
            (if role profile = ''admin'' then list_profiles w1
             else (Inr (reply 403 (Error_body ''Admin access required'')), w1)))"

subsection \<open>What a run did\<close>

text \<open>
  The log rows a run asked the store to write, the requests it sent out, and the three
  tables.
\<close>

fun log_writes :: "event list \<Rightarrow> log_entry list" where
  "log_writes [] = []"
| "log_writes (Insert_log l # evs) = l # log_writes evs"
| "log_writes (ev # evs) = log_writes evs"

fun http_posts :: "event list \<Rightarrow> (json \<times> (string \<times> string) list \<times> row) list" where
  "http_posts [] = []"
| "http_posts (Http_post url hs b # evs) = (url, hs, b) # http_posts evs"
| "http_posts (ev # evs) = http_posts evs"

definition tables :: "world \<Rightarrow> row list \<times> webhook_log list \<times> user_profile list" where
  "tables w = (business_ideas w, webhook_logs w, user_profiles w)"

definition bearer_token :: "request \<Rightarrow> string" where
  "bearer_token req = drop 7 (or_else (authorization req) [])"

subsection \<open>A small world to run the handlers in\<close>

definition ada :: user where
  "ada = \<lparr>user_id = ''u-ada'', user_email = ''ada@example.com'', user_full_name = None\<rparr>"

definition acme :: row where
  "acme =
     [(''id'', JNum 1), (''business_name'', JStr ''Acme''), (''contact_email'', JStr ''a@x.com''),
      (''industry'', JStr ''retail''), (''funding_amount_requested'', JNum 50000)]"

definition office :: env where
  "office =
     \<lparr>WEBHOOK_SECRET = Some ''s3cret'',
      SMTP_HOST = Some ''smtp.example.com'',
      SMTP_USER = Some ''mailer'',
      SMTP_PASSWORD = Some ''pw'',
      SMTP_FROM = Some ''deals@example.com'',
      getUser = (\<lambda>t. if t = ''tok'' then Auth_returns (Some ada) None
                      else Auth_returns None (Some ''invalid JWT'')),
      sendMail = (\<lambda>m. None),
      fetch = (\<lambda>url. if url = JStr ''https://hook.example/ok'' then Fetch_response True ''OK''
                      else Fetch_response False ''Bad Gateway''),
      now = 1000\<rparr>"

definition monday :: world where
  "monday =
     \<lparr>business_ideas = [acme],
      webhook_logs = [],
      user_profiles = [],
      next_id = 2,
      clock = 77,
      faults = [],
      trace = []\<rparr>"

definition ask :: "row \<Rightarrow> request" where
  "ask b =
     \<lparr>authorization = Some ''Bearer tok'',
      x_webhook_secret = None,
      user_agent = None,
      params_id = JNum 1,
      body = b\<rparr>"

text \<open>
  A log table with three rows out of order (one for an existing deal, one for none, one
  for a deal that is gone), and one with fifty-one rows.
\<close>

definition logged :: "json \<Rightarrow> nat \<Rightarrow> webhook_log" where
  "logged deal_ref t =
     \<lparr>entry = \<lparr>business_idea_id = deal_ref, action = ''form_submission'',
                triggered_by = ''google_form'', log_status = ''success'', details = JNull\<rparr>,
      log_id = t, triggered_at = t\<rparr>"

definition tuesday :: world where
  "tuesday = monday\<lparr>webhook_logs := [logged JNull 5, logged (JNum 1) 9, logged (JNum 4) 7]\<rparr>"

definition busy :: world where
  "busy = monday\<lparr>webhook_logs := map (logged JNull) [0..<51]\<rparr>"

section \<open>Properties\<close>

subsection \<open>Auxiliary facts\<close>

lemma log_writes_append: "log_writes (xs @ ys) = log_writes xs @ log_writes ys"
  by (induction xs rule: log_writes.induct) simp_all

lemma http_posts_append: "http_posts (xs @ ys) = http_posts xs @ http_posts ys"
  by (induction xs rule: http_posts.induct) simp_all

lemma verifyAuth_accepts:
  assumes "verifyAuth e req w = (Inr u, w1)"
  shows "w1 = emit (Auth_getUser (bearer_token req)) w"
    and "getUser e (bearer_token req) = Auth_returns (Some u) None"
  using assms
  by (auto simp: verifyAuth_def bearer_token_def Let_def
           split: if_splits auth_outcome.splits option.splits)

lemma verifyAuth_rejects:
  assumes "verifyAuth e req w = (Inl r, w1)"
  shows "status r = 401" and "tables w1 = tables w" and "faults w1 = faults w"
  using assms
  by (auto simp: verifyAuth_def bearer_token_def Let_def reply_def emit_def tables_def
           split: if_splits auth_outcome.splits option.splits)

lemma select_deal_world:
  "snd (select_deal v w) = emit (Select_from Business_ideas) (w\<lparr>faults := tl (faults w)\<rparr>)"
  by (simp add: select_deal_def store_call_def split: option.splits)

lemma insert_log_writes:
  "log_writes (trace (snd (insert_log l w))) = log_writes (trace w) @ [l]"
  by (simp add: insert_log_def store_call_def emit_def log_writes_append split: option.splits)

lemma insert_log_accepted:
  "next_fault w = None \<Longrightarrow>
   webhook_logs (snd (insert_log l w))
     = webhook_logs w @ [\<lparr>entry = l, log_id = next_id w, triggered_at = clock w\<rparr>]"
  by (simp add: insert_log_def store_call_def emit_def)

lemma insert_log_refused:
  "next_fault w = Some msg \<Longrightarrow> webhook_logs (snd (insert_log l w)) = webhook_logs w"
  by (simp add: insert_log_def store_call_def emit_def)

lemma insert_log_other_tables:
  "business_ideas (snd (insert_log l w)) = business_ideas w"
  "user_profiles (snd (insert_log l w)) = user_profiles w"
  by (simp_all add: insert_log_def store_call_def emit_def split: option.splits)

lemma literal_absent: "map_of kvs k = None \<Longrightarrow> map_of (literal kvs) k = None"
  by (induction kvs rule: literal.induct) (auto split: if_splits)

lemma literal_map_of:
  "distinct (map fst kvs) \<Longrightarrow>
   map_of (literal kvs) k = (case map_of kvs k of Some (Some v) \<Rightarrow> Some v | _ \<Rightarrow> None)"
proof (induction kvs rule: literal.induct)
  case 1
  then show ?case by simp
next
  case (2 k' kvs)
  then have absent: "map_of kvs k' = None" by (simp add: map_of_eq_None_iff)
  then have "map_of (literal kvs) k' = None" by (rule literal_absent)
  with 2 absent show ?case by simp
next
  case (3 k' v kvs)
  then show ?case by simp
qed

lemma map_of_tabulate:
  "map_of (map (\<lambda>k. (k, f k)) ks) k = (if k \<in> set ks then Some (f k) else None)"
  by (induction ks) auto

lemma echoed_prop:
  "get_prop (echoed req) k = (if k \<in> set echo_keys then get_prop (body req) k else None)"
proof -
  have d: "distinct (map fst (map (\<lambda>k. (k, get_prop (body req) k)) echo_keys))"
    by (simp add: echo_keys_def comp_def)
  show ?thesis
    using literal_map_of [OF d, of k]
    by (simp add: echoed_def get_prop_def map_of_tabulate split: option.splits)
qed

lemma forward_world:
  "forward e url deal w = (res, w2) \<Longrightarrow>
   tables w2 = tables w \<and> faults w2 = faults w \<and> next_id w2 = next_id w \<and> clock w2 = clock w
   \<and> log_writes (trace w2) = log_writes (trace w)"
  by (auto simp: forward_def Let_def emit_def tables_def log_writes_append
           split: if_splits fetch_outcome.splits)

lemma forward_result:
  "fst (forward e url deal w)
     = (if truthy url
        then (case fetch e (column url) of
                Fetch_rejects msg \<Rightarrow> Inl msg
              | Fetch_response ok st \<Rightarrow> if ok then Inr () else Inl (''Webhook failed: '' @ st))
        else Inr ())"
  by (simp add: forward_def Let_def split: fetch_outcome.splits)

lemma forward_posts:
  "http_posts (trace (snd (forward e url deal w)))
     = http_posts (trace w)
       @ (if truthy url then [(column url, outbound_headers e, outbound_body deal)] else [])"
  by (simp add: forward_def Let_def emit_def http_posts_append split: fetch_outcome.splits)

lemma insert_log_posts: "http_posts (trace (snd (insert_log l w))) = http_posts (trace w)"
  by (simp add: insert_log_def store_call_def emit_def http_posts_append split: option.splits)

lemma select_deal_posts: "http_posts (trace (snd (select_deal v w))) = http_posts (trace w)"
  by (simp add: select_deal_world emit_def http_posts_append)

lemma secret_header:
  "map_of (outbound_headers e) ''X-Webhook-Secret''
     = Some (case WEBHOOK_SECRET e of None \<Rightarrow> [] | Some s \<Rightarrow> s)"
  by (cases "WEBHOOK_SECRET e") (simp_all add: outbound_headers_def or_else_def)

lemma forward_empty_secret:
  "forward (e\<lparr>WEBHOOK_SECRET := None\<rparr>) url deal w
     = forward (e\<lparr>WEBHOOK_SECRET := Some []\<rparr>) url deal w"
  by (cases "truthy url") (simp_all add: forward_def outbound_headers_def or_else_def)

lemma form_row_forced:
  "get_prop (form_row b) ''source'' = Some (JStr ''google_form'')"
  "get_prop (form_row b) ''stage'' = Some (JStr ''submitted'')"
  by (simp_all add: form_row_def get_prop_def update_conv')

lemma form_row_rest:
  "k \<noteq> ''source'' \<Longrightarrow> k \<noteq> ''stage'' \<Longrightarrow> get_prop (form_row b) k = get_prop b k"
  by (simp add: form_row_def get_prop_def update_conv')

lemma with_default_keeps:
  "get_prop r k = Some v \<Longrightarrow> get_prop (with_default k' v' r) k = Some v"
  by (auto simp: with_default_def get_prop_def map_add_def split: option.splits)

lemma with_default_present: "get_prop (with_default k v r) k \<noteq> None"
  by (auto simp: with_default_def get_prop_def map_add_def split: option.splits)

lemma verifyAuth_again:
  assumes "verifyAuth e req w = (Inr u, wa)"
  shows "verifyAuth e req w2 = (Inr u, emit (Auth_getUser (bearer_token req)) w2)"
  using assms
  by (auto simp: verifyAuth_def bearer_token_def Let_def
           split: if_splits auth_outcome.splits option.splits)

lemma delete_deal_accepted:
  assumes "next_fault w = None"
  shows "delete_deal u req w
           = (reply 200 (Message_body ''Deal deleted successfully''),
              emit (Delete_deal (params_id req))
                (w\<lparr>faults := tl (faults w),
                   business_ideas :=
                     filter (\<lambda>d. \<not> has_id (Some (params_id req)) d) (business_ideas w)\<rparr>))"
  using assms
  by (simp add: delete_deal_def delete_deal_rows_def store_call_def catch_500_def emit_def)

lemma sorted_desc_rev_sort_key:
  "sorted_wrt (\<lambda>a b. f b \<le> f a) (rev (sort_key f xs))"
proof -
  have "sorted (map f (sort_key f xs))" by simp
  then have "sorted_wrt (\<lambda>a b. f a \<le> f b) (sort_key f xs)"
    by (simp add: sorted_map)
  then show ?thesis by (simp add: sorted_wrt_rev)
qed

lemma sorted_wrt_take_drop:
  assumes "sorted_wrt P xs" "a \<in> set (take n xs)" "b \<in> set (drop n xs)"
  shows "P a b"
proof -
  have "sorted_wrt P (take n xs @ drop n xs)" using assms(1) by simp
  then show ?thesis using assms(2,3) unfolding sorted_wrt_append by blast
qed

lemma joined_deal_found:
  "joined_deal deals l = Some d \<Longrightarrow>
   d \<in> set deals \<and> get_prop d ''id'' = Some (business_idea_id (entry l))"
  by (auto simp: joined_deal_def has_id_def find_Some_iff split: if_splits)

lemma joined_deal_missing:
  "joined_deal deals l = None \<Longrightarrow> d \<in> set deals \<Longrightarrow> business_idea_id (entry l) \<noteq> JNull \<Longrightarrow>
   get_prop d ''id'' \<noteq> Some (business_idea_id (entry l))"
  by (auto simp: joined_deal_def has_id_def find_None_iff split: if_splits)

lemma get_webhooks_ok:
  assumes "get_webhooks u req w = (r, w')" "status r = 200"
  shows "payload r = Logs_body (map (\<lambda>l. (l, joined_deal (business_ideas w) l))
                                  (take 50 (rev (sort_key triggered_at (webhook_logs w)))))"
  using assms
  by (auto simp: get_webhooks_def select_logs_def store_call_def catch_500_def reply_def emit_def
           split: option.splits)

lemma select_profile_world:
  "snd (select_profile uid w) = emit (Select_from User_profiles) (w\<lparr>faults := tl (faults w)\<rparr>)"
  by (simp add: select_profile_def store_call_def split: option.splits)

lemma select_profile_found:
  "fst (select_profile uid w) = Inr p \<Longrightarrow> p \<in> set (user_profiles w) \<and> profile_id p = uid"
  by (auto simp: select_profile_def store_call_def single_def emit_def filter_eq_Cons_iff
           split: option.splits list.splits)

lemma sorted_profiles:
  "sorted (map username (sort_key username ps)) \<and> mset (sort_key username ps) = mset ps"
  by simp


lemma get_users_without_profile:
  assumes "fst (select_profile (user_id u) w) = Inl err"
  shows "fst (get_users u req w) = reply 500 (Error_body null_role_error)"
  using assms
  by (cases "select_profile (user_id u) w") (auto simp: get_users_def catch_500_def)

lemma get_users_guarded_spec:
  assumes auth: "verifyAuth e req w = (Inr u, w1)"
      and run: "protected e get_users_guarded req w = (r, w')"
  shows "((\<exists>err. fst (select_profile (user_id u) w1) = Inl err) \<longrightarrow>
            r = reply 403 (Error_body ''Admin access required''))
       \<and> (\<forall>p. fst (select_profile (user_id u) w1) = Inr p \<longrightarrow> role p \<noteq> ''admin'' \<longrightarrow>
            r = reply 403 (Error_body ''Admin access required''))
       \<and> (\<forall>p. fst (select_profile (user_id u) w1) = Inr p \<longrightarrow> role p = ''admin'' \<longrightarrow>
            next_fault (snd (select_profile (user_id u) w1)) = None \<longrightarrow>
            (\<exists>ps. r = reply 200 (Profiles_body ps)
               \<and> mset ps = mset (user_profiles w)
               \<and> sorted (map username ps)))"
proof -
  have w1: "w1 = emit (Auth_getUser (bearer_token req)) w"
    using auth by (rule verifyAuth_accepts)
  have run': "get_users_guarded u req w1 = (r, w')" using run auth by (simp add: protected_def)
  obtain res w2 where sel: "select_profile (user_id u) w1 = (res, w2)"
    by (cases "select_profile (user_id u) w1")
  have w2: "w2 = emit (Select_from User_profiles) (w1\<lparr>faults := tl (faults w1)\<rparr>)"
    using select_profile_world [of "user_id u" w1] sel by simp
  have up: "user_profiles w2 = user_profiles w" by (simp add: w2 w1 emit_def)
  show ?thesis
  proof (cases res)
    case (Inl err)
    then show ?thesis using run' sel by (auto simp: get_users_guarded_def catch_500_def)
  next
    case (Inr p)
    show ?thesis
    proof (cases "role p = ''admin''")
      case False
      then show ?thesis using run' sel Inr by (auto simp: get_users_guarded_def catch_500_def)
    next
      case True
      have "next_fault w2 = None \<longrightarrow>
              r = reply 200 (Profiles_body (sort_key username (user_profiles w)))"
        using run' sel Inr True up
        by (auto simp: get_users_guarded_def catch_500_def list_profiles_def select_profiles_def
              store_call_def emit_def)
      then show ?thesis using sel Inr True by auto
    qed
  qed
qed


lemma get_user_profile_fails_with_read:
  assumes "fst (select_profile (user_id u) w) = Inl err"
  shows "fst (get_user_profile u req w) = reply 500 (Error_body err)"
  using assms
  by (cases "select_profile (user_id u) w") (auto simp: get_user_profile_def catch_500_def)

lemma get_user_profile_robust_spec:
  assumes run: "get_user_profile_robust u req w = (r, w')"
  shows "(\<exists>p. r = reply 200 (Profile_body p))
       \<and> (\<forall>p. fst (select_profile (user_id u) w) = Inr p \<longrightarrow> r = reply 200 (Profile_body p))
       \<and> ((\<exists>err. fst (select_profile (user_id u) w) = Inl err) \<longrightarrow>
            r = reply 200 (Profile_body (newProfile u))
            \<and> username (newProfile u) = local_part (user_email u)
            \<and> role (newProfile u) = ''user'')"
proof -
  obtain res w1 where sel: "select_profile (user_id u) w = (res, w1)"
    by (cases "select_profile (user_id u) w")
  obtain ires w2 where ins: "insert_profile (newProfile u) w1 = (ires, w2)"
    by (cases "insert_profile (newProfile u) w1")
  have created: "ires = Inr p \<Longrightarrow> p = newProfile u" for p
    using ins by (auto simp: insert_profile_def store_call_def split: option.splits if_splits)
  show ?thesis
  proof (cases res)
    case (Inl err)
    then have "r = reply 200 (Profile_body (newProfile u))"
      using run sel ins created by (cases ires) (auto simp: get_user_profile_robust_def)
    moreover have "username (newProfile u) = local_part (user_email u)"
      "role (newProfile u) = ''user''"
      by (simp_all add: newProfile_def)
    ultimately show ?thesis using sel Inl by auto
  next
    case (Inr p)
    then show ?thesis using run sel by (auto simp: get_user_profile_robust_def)
  qed
qed

lemma send_outreach_unguarded_same:
  "transporter e = Some t \<Longrightarrow> send_outreach_unguarded e u req w = send_outreach e u req w"
  by (simp add: send_outreach_def send_outreach_unguarded_def)

lemma send_outreach_unguarded_fetches_first:
  "\<exists>evs. trace (snd (send_outreach_unguarded e u req w))
            = trace w @ Select_from Business_ideas # evs"
proof -
  let ?v = "get_prop (body req) ''dealId''"
  obtain res w1 where sel: "select_deal ?v w = (res, w1)" by (cases "select_deal ?v w")
  have w1: "trace w1 = trace w @ [Select_from Business_ideas]"
    using select_deal_world [of ?v w] sel by (simp add: emit_def)
  show ?thesis
  proof (cases res)
    case (Inl err)
    then show ?thesis
      using sel w1 by (simp add: send_outreach_unguarded_def fetch_send_log_def catch_500_def)
  next
    case (Inr deal)
    then show ?thesis
      using sel w1
      by (cases "sendMail e (outreach_mail e deal)")
         (simp_all add: send_outreach_unguarded_def fetch_send_log_def catch_500_def Let_def
            insert_log_def store_call_def emit_def split: prod.splits option.splits)
  qed
qed

lemma send_outreach_unguarded_log_after_send:
  assumes run: "send_outreach_unguarded e u req w = (r, w')"
      and logged: "log_writes (trace w') \<noteq> log_writes (trace w)"
  shows "\<exists>deal. fst (select_deal (get_prop (body req) ''dealId'') w) = Inr deal
           \<and> sendMail e (outreach_mail e deal) = None
           \<and> log_writes (trace w')
               = log_writes (trace w) @ [outreach_log u (get_prop (body req) ''dealId'') deal]"
proof -
  let ?v = "get_prop (body req) ''dealId''"
  obtain res w1 where sel: "select_deal ?v w = (res, w1)" by (cases "select_deal ?v w")
  have w1: "log_writes (trace w1) = log_writes (trace w)"
    using select_deal_world [of ?v w] sel by (simp add: emit_def log_writes_append)
  show ?thesis
  proof (cases res)
    case (Inl err)
    then show ?thesis
      using run logged sel w1
      by (auto simp: send_outreach_unguarded_def fetch_send_log_def catch_500_def)
  next
    case (Inr deal)
    then show ?thesis
      using run logged sel w1
      by (cases "sendMail e (outreach_mail e deal)")
         (auto simp: send_outreach_unguarded_def fetch_send_log_def catch_500_def Let_def
            insert_log_def store_call_def emit_def log_writes_append
            split: prod.splits option.splits)
  qed
qed

lemma get_users_with_profile:
  "fst (select_profile (user_id u) w) = Inr p \<Longrightarrow> get_users u req w = get_users_guarded u req w"
  by (cases "select_profile (user_id u) w") (auto simp: get_users_def get_users_guarded_def)

lemma outreach_external_empty_secret:
  "outreach_external (e\<lparr>WEBHOOK_SECRET := Some []\<rparr>) req w
     = outreach_external (e\<lparr>WEBHOOK_SECRET := None\<rparr>) req w"
  by (simp add: outreach_external_def)

lemmas model_defs =
  get_prop_def or_null_def or_else_def column_def starts_with_def local_part_def reply_def
  transporter_def emit_def next_fault_def store_call_def single_def has_id_def with_default_def
  select_deal_def insert_deal_def delete_deal_rows_def insert_log_def joined_deal_def
  select_logs_def select_profile_def select_profiles_def insert_profile_def
  verifyAuth_def protected_def catch_500_def bearer_token_def tables_def

lemmas example_defs = ada_def acme_def office_def monday_def ask_def

subsection \<open>The gate rejects a request without a bearer token before anything else runs\<close>

text \<open>
  Claim C4. A request to a bearer-protected endpoint whose \<^verbatim>\<open>Authorization\<close> header is
  missing, or does not start with \<^verbatim>\<open>Bearer \<close>, is answered 401 "No token provided", and
  the world after the request is the world before it: no table is read or written, no
  call of the store, of the identity provider, of the mail relay or of a remote webhook
  is made. This holds for every handler registered behind \<^verbatim>\<open>verifyAuth\<close>.
\<close>

theorem no_bearer_no_effect:
  assumes "authorization req = None
           \<or> (\<exists>h. authorization req = Some h \<and> \<not> starts_with ''Bearer '' h)"
  shows "verifyAuth e req w = (Inl (reply 401 (Error_body ''No token provided'')), w)
       \<and> protected e handler req w = (reply 401 (Error_body ''No token provided''), w)"
  using assms
  by (auto simp: protected_def verifyAuth_def or_else_def Let_def)

theorem no_bearer_no_effect_witness:
  "authorization ((ask [])\<lparr>authorization := None\<rparr>) = None
   \<and> protected office delete_deal ((ask [])\<lparr>authorization := None\<rparr>) monday
       = (reply 401 (Error_body ''No token provided''), monday)
   \<and> authorization ((ask [])\<lparr>authorization := Some ''tok''\<rparr>) = Some ''tok''
   \<and> starts_with ''Bearer '' ''tok'' = False
   \<and> protected office delete_deal ((ask [])\<lparr>authorization := Some ''tok''\<rparr>) monday
       = (reply 401 (Error_body ''No token provided''), monday)"
  using no_bearer_no_effect [of "(ask [])\<lparr>authorization := None\<rparr>" office monday delete_deal]
        no_bearer_no_effect [of "(ask [])\<lparr>authorization := Some ''tok''\<rparr>" office monday delete_deal]
  by (simp add: ask_def starts_with_def)

subsection \<open>Direct send: no transport, no work; no send, no log\<close>

text \<open>
  Claim C3. For an authenticated request to \<^verbatim>\<open>POST /api/webhook/send-outreach\<close>
  (\<^verbatim>\<open>server.js\<close>): when no mail transport is configured the response is 503 and the only
  thing that happened is the identity provider's check of the token (no deal fetch, no
  send, no log write); when the deal fetch fails, or the relay rejects the message, no log
  row is written (neither asked of the store nor present in the table) and the response
  is 500; and a log write happens only with a transport, a fetched deal and a send that
  returned without error, in which case it is the one \<^verbatim>\<open>send_outreach\<close> row and the
  response is the success message.
\<close>

theorem send_outreach_log_after_send:
  assumes auth: "verifyAuth e req w = (Inr u, w1)"
      and run: "protected e (send_outreach e) req w = (r, w')"
  shows "(transporter e = None \<longrightarrow>
            r = reply 503 (Error_body ''Email service not configured. Use external webhook instead.'')
            \<and> w' = emit (Auth_getUser (bearer_token req)) w)
       \<and> ((\<exists>err. fst (select_deal (get_prop (body req) ''dealId'') w1) = Inl err) \<longrightarrow>
            log_writes (trace w') = log_writes (trace w) \<and> webhook_logs w' = webhook_logs w
            \<and> status r = (if transporter e = None then 503 else 500))
       \<and> (\<forall>deal err. fst (select_deal (get_prop (body req) ''dealId'') w1) = Inr deal \<longrightarrow>
            sendMail e (outreach_mail e deal) = Some err \<longrightarrow>
            log_writes (trace w') = log_writes (trace w) \<and> webhook_logs w' = webhook_logs w
            \<and> status r = (if transporter e = None then 503 else 500))
       \<and> (log_writes (trace w') \<noteq> log_writes (trace w) \<longrightarrow>
            (\<exists>deal. transporter e \<noteq> None
               \<and> fst (select_deal (get_prop (body req) ''dealId'') w1) = Inr deal
               \<and> sendMail e (outreach_mail e deal) = None
               \<and> log_writes (trace w')
                   = log_writes (trace w) @ [outreach_log u (get_prop (body req) ''dealId'') deal]
               \<and> r = reply 200 (Message_body ''Outreach email sent successfully'')))"
proof -
  have w1: "w1 = emit (Auth_getUser (bearer_token req)) w"
    using auth by (rule verifyAuth_accepts)
  have lw1: "log_writes (trace w1) = log_writes (trace w)" and wl1: "webhook_logs w1 = webhook_logs w"
    by (simp_all add: w1 emit_def log_writes_append)
  have run': "send_outreach e u req w1 = (r, w')"
    using run auth by (simp add: protected_def)
  let ?v = "get_prop (body req) ''dealId''"
  obtain res w2 where sel: "select_deal ?v w1 = (res, w2)" by (cases "select_deal ?v w1")
  have w2: "w2 = emit (Select_from Business_ideas) (w1\<lparr>faults := tl (faults w1)\<rparr>)"
    using select_deal_world [of ?v w1] sel by simp
  have lw2: "log_writes (trace w2) = log_writes (trace w)" and wl2: "webhook_logs w2 = webhook_logs w"
    by (simp_all add: w2 emit_def log_writes_append lw1 wl1)
  show ?thesis
  proof (cases "transporter e")
    case None
    then show ?thesis
      using run' w1 lw1 wl1 by (auto simp: send_outreach_def catch_500_def reply_def)
  next
    case (Some t)
    show ?thesis
    proof (cases res)
      case (Inl err)
      then show ?thesis
        using run' Some sel lw2 wl2
        by (auto simp: send_outreach_def fetch_send_log_def catch_500_def reply_def)
    next
      case (Inr deal)
      show ?thesis
      proof (cases "sendMail e (outreach_mail e deal)")
        case None
        then show ?thesis
          using run' Some sel Inr lw2 wl2
          by (auto simp: send_outreach_def fetch_send_log_def catch_500_def reply_def Let_def
                insert_log_def store_call_def emit_def log_writes_append split: option.splits)
      next
        case (Some err)
        then show ?thesis
          using run' \<open>transporter e = Some t\<close> sel Inr lw2 wl2
          by (auto simp: send_outreach_def fetch_send_log_def catch_500_def reply_def Let_def
                emit_def log_writes_append)
      qed
    qed
  qed
qed


theorem send_outreach_log_after_send_witness:
  "protected (office\<lparr>SMTP_HOST := None\<rparr>) (send_outreach (office\<lparr>SMTP_HOST := None\<rparr>))
      (ask [(''dealId'', JNum 1)]) monday
     = (reply 503 (Error_body ''Email service not configured. Use external webhook instead.''),
        emit (Auth_getUser ''tok'') monday)
   \<and> fst (select_deal (Some (JNum 9)) (emit (Auth_getUser ''tok'') monday))
       = Inl ''JSON object requested, multiple (or no) rows returned''
   \<and> status (fst (protected office (send_outreach office) (ask [(''dealId'', JNum 9)]) monday)) = 500
   \<and> log_writes (trace (snd (protected office (send_outreach office) (ask [(''dealId'', JNum 9)]) monday))) = []
   \<and> sendMail (office\<lparr>sendMail := (\<lambda>m. Some ''relay down'')\<rparr>)
         (outreach_mail (office\<lparr>sendMail := (\<lambda>m. Some ''relay down'')\<rparr>) acme) = Some ''relay down''
   \<and> fst (protected (office\<lparr>sendMail := (\<lambda>m. Some ''relay down'')\<rparr>)
         (send_outreach (office\<lparr>sendMail := (\<lambda>m. Some ''relay down'')\<rparr>))
         (ask [(''dealId'', JNum 1)]) monday) = reply 500 (Error_body ''relay down'')
   \<and> webhook_logs (snd (protected (office\<lparr>sendMail := (\<lambda>m. Some ''relay down'')\<rparr>)
         (send_outreach (office\<lparr>sendMail := (\<lambda>m. Some ''relay down'')\<rparr>))
         (ask [(''dealId'', JNum 1)]) monday)) = []
   \<and> log_writes (trace (snd (protected office (send_outreach office) (ask [(''dealId'', JNum 1)]) monday)))
       = [outreach_log ada (Some (JNum 1)) acme]"
proof -
  let ?off = "office\<lparr>SMTP_HOST := None\<rparr>"
  let ?down = "office\<lparr>sendMail := (\<lambda>m. Some ''relay down'')\<rparr>"
  let ?w1 = "emit (Auth_getUser ''tok'') monday"
  have a1: "verifyAuth ?off (ask [(''dealId'', JNum 1)]) monday = (Inr ada, ?w1)"
    and a2: "verifyAuth office (ask [(''dealId'', JNum 9)]) monday = (Inr ada, ?w1)"
    and a3: "verifyAuth ?down (ask [(''dealId'', JNum 1)]) monday = (Inr ada, ?w1)"
    and a4: "verifyAuth office (ask [(''dealId'', JNum 1)]) monday = (Inr ada, ?w1)"
    by (simp_all add: model_defs example_defs)
  have t1: "transporter ?off = None" by (simp add: model_defs example_defs)
  have f2: "fst (select_deal (Some (JNum 9)) ?w1)
              = Inl ''JSON object requested, multiple (or no) rows returned''"
    by (simp add: model_defs example_defs)
  have f3: "fst (select_deal (Some (JNum 1)) ?w1) = Inr acme"
    by (simp add: model_defs example_defs)
  have s3: "sendMail ?down (outreach_mail ?down acme) = Some ''relay down''" by simp
  have b1: "get_prop (body (ask [(''dealId'', JNum 1)])) ''dealId'' = Some (JNum 1)"
    and b2: "get_prop (body (ask [(''dealId'', JNum 9)])) ''dealId'' = Some (JNum 9)"
    by (simp_all add: model_defs example_defs)
  have l4: "log_writes (trace (snd (protected office (send_outreach office) (ask [(''dealId'', JNum 1)]) monday)))
              \<noteq> log_writes (trace monday)"
    by (simp add: model_defs example_defs send_outreach_def fetch_send_log_def outreach_mail_def
          outreach_log_def)
  note c1 = send_outreach_log_after_send [OF a1 surjective_pairing]
  note c2 = send_outreach_log_after_send [OF a2 surjective_pairing]
  note c3 = send_outreach_log_after_send [OF a3 surjective_pairing]
  note c4 = send_outreach_log_after_send [OF a4 surjective_pairing]
  show ?thesis
    using c1 c2 c3 c4 t1 f2 f3 s3 b1 b2 l4
    by (simp add: model_defs example_defs send_outreach_def fetch_send_log_def outreach_mail_def
          outreach_log_def)
qed

subsection \<open>The inbound webhook and its shared secret\<close>

text \<open>
Claim C5. The inbound external webhook \<^verbatim>\<open>POST /api/webhook/outreach-external\<close>. A
  shared secret is configured when \<^verbatim>\<open>WEBHOOK_SECRET\<close> is set to a non-empty string (the
  handler tests its truthiness). Then a request whose \<^verbatim>\<open>X-Webhook-Secret\<close> header is
  missing or different is answered 401 "Unauthorized" and the world is unchanged, so no
  log row is written. When the variable is not set, every request passes: the handler
  asks the store for exactly one insert, of a log row with action
  \<^verbatim>\<open>outreach_external\<close>, touches no other table, and answers 200 with the destructured
  properties of the body and the server's time. The handler does not look at the result of
  the insert: the row is in the table when the store accepted the call.
\<close>

theorem outreach_external_secret_gate:
  assumes run: "outreach_external e req w = (r, w')"
  shows "(\<forall>s. WEBHOOK_SECRET e = Some s \<longrightarrow> s \<noteq> [] \<longrightarrow> x_webhook_secret req \<noteq> Some s \<longrightarrow>
            r = reply 401 (Error_body ''Unauthorized'') \<and> w' = w)
       \<and> (WEBHOOK_SECRET e = None \<longrightarrow>
            r = reply 200 (Received_body ''Webhook received successfully'' (echoed req) (now e))
            \<and> (\<forall>k \<in> set echo_keys. get_prop (echoed req) k = get_prop (body req) k)
            \<and> trace w' = trace w @ [Insert_log (external_log req)]
            \<and> action (external_log req) = ''outreach_external''
            \<and> business_ideas w' = business_ideas w \<and> user_profiles w' = user_profiles w
            \<and> (next_fault w = None \<longrightarrow>
                 webhook_logs w'
                   = webhook_logs w
                     @ [\<lparr>entry = external_log req, log_id = next_id w, triggered_at = clock w\<rparr>]))"
  using run
  by (cases "WEBHOOK_SECRET e")
     (auto simp: outreach_external_def catch_500_def insert_log_def store_call_def emit_def
        external_log_def echoed_prop split: option.splits if_splits)

theorem outreach_external_secret_gate_witness:
  "WEBHOOK_SECRET office = Some ''s3cret''
   \<and> x_webhook_secret (ask []) = None
   \<and> outreach_external office (ask []) monday = (reply 401 (Error_body ''Unauthorized''), monday)
   \<and> outreach_external office ((ask [])\<lparr>x_webhook_secret := Some ''guess''\<rparr>) monday
       = (reply 401 (Error_body ''Unauthorized''), monday)
   \<and> WEBHOOK_SECRET (office\<lparr>WEBHOOK_SECRET := None\<rparr>) = None
   \<and> fst (outreach_external (office\<lparr>WEBHOOK_SECRET := None\<rparr>) (ask [(''email'', JStr ''a@x.com'')]) monday)
       = reply 200 (Received_body ''Webhook received successfully'' [(''email'', JStr ''a@x.com'')] 1000)
   \<and> next_fault monday = None
   \<and> webhook_logs (snd (outreach_external (office\<lparr>WEBHOOK_SECRET := None\<rparr>)
                          (ask [(''email'', JStr ''a@x.com'')]) monday))
       = [\<lparr>entry = external_log (ask [(''email'', JStr ''a@x.com'')]), log_id = 2, triggered_at = 77\<rparr>]"
  using outreach_external_secret_gate [OF surjective_pairing, of office "ask []" monday]
        outreach_external_secret_gate
          [OF surjective_pairing, of office "(ask [])\<lparr>x_webhook_secret := Some ''guess''\<rparr>" monday]
        outreach_external_secret_gate
          [OF surjective_pairing, of "office\<lparr>WEBHOOK_SECRET := None\<rparr>"
             "ask [(''email'', JStr ''a@x.com'')]" monday]
  by (simp add: model_defs example_defs outreach_external_def external_log_def echoed_def
        echo_keys_def)

subsection \<open>The forwarded trigger logs exactly when the forward succeeded or was skipped\<close>

text \<open>
Claim C6. For an authenticated request to \<^verbatim>\<open>POST /api/webhook/trigger-outreach\<close> whose
  deal fetch succeeds: when a webhook URL is supplied and the outbound POST answers with a
  status that is not 2xx, the request fails with 500 "Webhook failed: ..." and no log row
  is written. The \<^verbatim>\<open>trigger_outreach\<close> log row is asked of the store exactly when no URL
  was supplied or the POST succeeded (and then the response is the success message, and
  the row is in the table when the store accepted the insert); otherwise (the POST was
  refused by the remote side, or did not complete) nothing is logged and the response
  is 500.
\<close>

theorem trigger_outreach_log_iff_forwarded:
  assumes auth: "verifyAuth e req w = (Inr u, w1)"
      and sel: "select_deal (get_prop (body req) ''dealId'') w1 = (Inr deal, w2)"
      and run: "protected e (trigger_outreach e) req w = (r, w')"
  shows "(\<forall>st. truthy (get_prop (body req) ''webhookUrl'') \<longrightarrow>
              fetch e (column (get_prop (body req) ''webhookUrl'')) = Fetch_response False st \<longrightarrow>
              r = reply 500 (Error_body (''Webhook failed: '' @ st))
              \<and> log_writes (trace w') = log_writes (trace w)
              \<and> webhook_logs w' = webhook_logs w)
       \<and> (if truthy (get_prop (body req) ''webhookUrl'')
              \<and> (\<forall>st. fetch e (column (get_prop (body req) ''webhookUrl'')) \<noteq> Fetch_response True st)
           then log_writes (trace w') = log_writes (trace w)
                \<and> webhook_logs w' = webhook_logs w
                \<and> status r = 500
           else log_writes (trace w')
                  = log_writes (trace w)
                    @ [trigger_log u (get_prop (body req) ''dealId'')
                         (get_prop (body req) ''webhookUrl'') deal]
                \<and> action (trigger_log u (get_prop (body req) ''dealId'')
                             (get_prop (body req) ''webhookUrl'') deal) = ''trigger_outreach''
                \<and> r = reply 200 (Triggered_body ''Outreach triggered successfully''
                                   (get_prop deal ''business_name''))
                \<and> (next_fault w2 = None \<longrightarrow>
                     webhook_logs w'
                       = webhook_logs w
                         @ [\<lparr>entry = trigger_log u (get_prop (body req) ''dealId'')
                                       (get_prop (body req) ''webhookUrl'') deal,
                             log_id = next_id w, triggered_at = clock w\<rparr>]))"
proof -
  let ?url = "get_prop (body req) ''webhookUrl''"
  let ?v = "get_prop (body req) ''dealId''"
  have w1: "w1 = emit (Auth_getUser (bearer_token req)) w"
    using auth by (rule verifyAuth_accepts)
  have w2: "w2 = emit (Select_from Business_ideas) (w1\<lparr>faults := tl (faults w1)\<rparr>)"
    using select_deal_world [of ?v w1] sel by simp
  have base: "log_writes (trace w2) = log_writes (trace w)" "webhook_logs w2 = webhook_logs w"
             "next_id w2 = next_id w" "clock w2 = clock w"
    by (simp_all add: w1 w2 emit_def log_writes_append)
  obtain res w3 where fw: "forward e ?url deal w2 = (res, w3)" by (cases "forward e ?url deal w2")
  have w3: "webhook_logs w3 = webhook_logs w" "log_writes (trace w3) = log_writes (trace w)"
           "next_fault w3 = next_fault w2" "next_id w3 = next_id w" "clock w3 = clock w"
    using forward_world [OF fw] base by (simp_all add: tables_def next_fault_def)
  have res: "res = (if truthy ?url
        then (case fetch e (column ?url) of
                Fetch_rejects msg \<Rightarrow> Inl msg
              | Fetch_response ok st \<Rightarrow> if ok then Inr () else Inl (''Webhook failed: '' @ st))
        else Inr ())"
    using forward_result [of e ?url deal w2] fw by simp
  have run': "trigger_outreach e u req w1 = (r, w')"
    using run auth by (simp add: protected_def)
  show ?thesis
  proof (cases res)
    case (Inl err)
    then have out: "r = reply 500 (Error_body err)" "w' = w3"
      using run' sel fw by (auto simp: trigger_outreach_def catch_500_def)
    from Inl res have bad: "truthy ?url"
      "\<forall>st. fetch e (column ?url) \<noteq> Fetch_response True st"
      by (auto split: if_splits fetch_outcome.splits)
    from Inl res have msg: "\<forall>st. fetch e (column ?url) = Fetch_response False st
                              \<longrightarrow> err = ''Webhook failed: '' @ st"
      by (auto split: if_splits fetch_outcome.splits)
    show ?thesis using out bad msg w3 by (simp add: reply_def)
  next
    case (Inr sent)
    then have out: "r = reply 200 (Triggered_body ''Outreach triggered successfully''
                                   (get_prop deal ''business_name''))"
      "w' = snd (insert_log (trigger_log u ?v ?url deal) w3)"
      using run' sel fw by (auto simp: trigger_outreach_def catch_500_def split: prod.splits)
    from Inr res have good: "\<not> (truthy ?url
        \<and> (\<forall>st. fetch e (column ?url) \<noteq> Fetch_response True st))"
      by (auto split: if_splits fetch_outcome.splits)
    from Inr res have nofalse: "\<forall>st. truthy ?url \<longrightarrow> fetch e (column ?url) \<noteq> Fetch_response False st"
      by (auto split: if_splits fetch_outcome.splits)
    show ?thesis
      using out good nofalse w3 insert_log_writes [of "trigger_log u ?v ?url deal" w3]
        insert_log_accepted [of w3 "trigger_log u ?v ?url deal"]
      by (auto simp: trigger_log_def)
  qed
qed


theorem trigger_outreach_log_iff_forwarded_witness:
  "fst (protected office (trigger_outreach office)
          (ask [(''dealId'', JNum 1), (''webhookUrl'', JStr ''https://hook.example/down'')]) monday)
     = reply 500 (Error_body ''Webhook failed: Bad Gateway'')
   \<and> webhook_logs (snd (protected office (trigger_outreach office)
          (ask [(''dealId'', JNum 1), (''webhookUrl'', JStr ''https://hook.example/down'')]) monday))
     = []
   \<and> log_writes (trace (snd (protected office (trigger_outreach office)
          (ask [(''dealId'', JNum 1), (''webhookUrl'', JStr ''https://hook.example/down'')]) monday)))
     = []
   \<and> webhook_logs (snd (protected office (trigger_outreach office)
          (ask [(''dealId'', JNum 1), (''webhookUrl'', JStr ''https://hook.example/ok'')]) monday))
     = [\<lparr>entry = trigger_log ada (Some (JNum 1)) (Some (JStr ''https://hook.example/ok'')) acme,
         log_id = 2, triggered_at = 77\<rparr>]
   \<and> log_writes (trace (snd (protected office (trigger_outreach office)
          (ask [(''dealId'', JNum 1)]) monday)))
     = [trigger_log ada (Some (JNum 1)) None acme]"
proof -
  let ?down = "ask [(''dealId'', JNum 1), (''webhookUrl'', JStr ''https://hook.example/down'')]"
  let ?ok = "ask [(''dealId'', JNum 1), (''webhookUrl'', JStr ''https://hook.example/ok'')]"
  let ?none = "ask [(''dealId'', JNum 1)]"
  let ?w1 = "emit (Auth_getUser ''tok'') monday"
  let ?w2 = "emit (Select_from Business_ideas) ?w1"
  have a: "verifyAuth office ?down monday = (Inr ada, ?w1)"
          "verifyAuth office ?ok monday = (Inr ada, ?w1)"
          "verifyAuth office ?none monday = (Inr ada, ?w1)"
    by (simp_all add: model_defs example_defs)
  have s: "select_deal (get_prop (body ?down) ''dealId'') ?w1 = (Inr acme, ?w2)"
          "select_deal (get_prop (body ?ok) ''dealId'') ?w1 = (Inr acme, ?w2)"
          "select_deal (get_prop (body ?none) ''dealId'') ?w1 = (Inr acme, ?w2)"
    by (simp_all add: model_defs example_defs)
  note c1 = trigger_outreach_log_iff_forwarded [OF a(1) s(1) surjective_pairing]
  note c2 = trigger_outreach_log_iff_forwarded [OF a(2) s(2) surjective_pairing]
  note c3 = trigger_outreach_log_iff_forwarded [OF a(3) s(3) surjective_pairing]
  have u: "get_prop (body ?down) ''webhookUrl'' = Some (JStr ''https://hook.example/down'')"
          "get_prop (body ?ok) ''webhookUrl'' = Some (JStr ''https://hook.example/ok'')"
          "get_prop (body ?none) ''webhookUrl'' = None"
          "get_prop (body ?ok) ''dealId'' = Some (JNum 1)"
          "get_prop (body ?none) ''dealId'' = Some (JNum 1)"
    by (simp_all add: model_defs example_defs)
  have f: "fetch office (JStr ''https://hook.example/down'') = Fetch_response False ''Bad Gateway''"
          "fetch office (JStr ''https://hook.example/ok'') = Fetch_response True ''OK''"
    by (simp_all add: example_defs)
  have n: "next_fault ?w2 = None" "webhook_logs monday = []" "trace monday = []"
          "next_id monday = 2" "clock monday = 77"
    by (simp_all add: model_defs example_defs)
  show ?thesis
    using c1 c2 c3 by (simp add: u f n column_def)
qed

subsection \<open>The outbound request always carries the secret header\<close>

text \<open>
Claim C10. A run of \<^verbatim>\<open>POST /api/webhook/trigger-outreach\<close> sends at most one outbound
  request, and every outbound request carries the header \<^verbatim>\<open>X-Webhook-Secret\<close>: its value
  is the configured secret, and the empty string when none is configured (the header is
  never left out). When the deal was fetched and a URL supplied, the request is sent, to
  that URL with those headers. A server without a secret and a server whose secret is the
  empty string behave the same, so a receiver cannot tell them apart.
\<close>

theorem outbound_post_carries_secret_header:
  assumes run: "trigger_outreach e u req w = (r, w')"
  shows "(\<exists>posts. http_posts (trace w') = http_posts (trace w) @ posts
            \<and> length posts \<le> 1
            \<and> (\<forall>(url, hs, b) \<in> set posts.
                  map_of hs ''X-Webhook-Secret''
                    = Some (case WEBHOOK_SECRET e of None \<Rightarrow> [] | Some s \<Rightarrow> s)))
       \<and> (\<forall>deal. fst (select_deal (get_prop (body req) ''dealId'') w) = Inr deal \<longrightarrow>
              truthy (get_prop (body req) ''webhookUrl'') \<longrightarrow>
              http_posts (trace w')
                = http_posts (trace w)
                  @ [(column (get_prop (body req) ''webhookUrl''), outbound_headers e,
                      outbound_body deal)])
       \<and> trigger_outreach (e\<lparr>WEBHOOK_SECRET := None\<rparr>) u req w
           = trigger_outreach (e\<lparr>WEBHOOK_SECRET := Some []\<rparr>) u req w"
proof -
  let ?url = "get_prop (body req) ''webhookUrl''"
  let ?v = "get_prop (body req) ''dealId''"
  obtain res w1 where sel: "select_deal ?v w = (res, w1)" by (cases "select_deal ?v w")
  have p1: "http_posts (trace w1) = http_posts (trace w)"
    using select_deal_posts [of ?v w] sel by simp
  have same: "trigger_outreach (e\<lparr>WEBHOOK_SECRET := None\<rparr>) u req w
           = trigger_outreach (e\<lparr>WEBHOOK_SECRET := Some []\<rparr>) u req w"
    by (simp add: trigger_outreach_def forward_empty_secret Let_def
          cong: prod.case_cong sum.case_cong)
  show ?thesis
  proof (cases res)
    case (Inl err)
    then have "w' = w1" using run sel by (auto simp: trigger_outreach_def catch_500_def)
    then show ?thesis using p1 same sel Inl by simp
  next
    case (Inr deal)
    obtain fres w2 where fw: "forward e ?url deal w1 = (fres, w2)"
      by (cases "forward e ?url deal w1")
    have p2: "http_posts (trace w2)
                = http_posts (trace w)
                  @ (if truthy ?url then [(column ?url, outbound_headers e, outbound_body deal)]
                     else [])"
      using forward_posts [of e ?url deal w1] fw p1 by simp
    have "http_posts (trace w') = http_posts (trace w2)"
      using run sel Inr fw insert_log_posts [of "trigger_log u ?v ?url deal" w2]
      by (cases fres) (auto simp: trigger_outreach_def catch_500_def split: prod.splits)
    then show ?thesis using p2 same sel Inr by (simp add: secret_header)
  qed
qed

theorem outbound_post_carries_secret_header_witness:
  "http_posts (trace (snd (trigger_outreach office ada
       (ask [(''dealId'', JNum 1), (''webhookUrl'', JStr ''https://hook.example/ok'')]) monday)))
     = [(JStr ''https://hook.example/ok'',
         [(''Content-Type'', ''application/json''), (''X-Webhook-Secret'', ''s3cret'')],
         outbound_body acme)]
   \<and> http_posts (trace (snd (trigger_outreach (office\<lparr>WEBHOOK_SECRET := None\<rparr>) ada
       (ask [(''dealId'', JNum 1), (''webhookUrl'', JStr ''https://hook.example/ok'')]) monday)))
     = [(JStr ''https://hook.example/ok'',
         [(''Content-Type'', ''application/json''), (''X-Webhook-Secret'', [])],
         outbound_body acme)]"
proof -
  let ?ok = "ask [(''dealId'', JNum 1), (''webhookUrl'', JStr ''https://hook.example/ok'')]"
  have s: "fst (select_deal (get_prop (body ?ok) ''dealId'') monday) = Inr acme"
    by (simp add: model_defs example_defs)
  have u: "truthy (get_prop (body ?ok) ''webhookUrl'')"
          "column (get_prop (body ?ok) ''webhookUrl'') = JStr ''https://hook.example/ok''"
    by (simp_all add: model_defs example_defs)
  have h: "outbound_headers office
             = [(''Content-Type'', ''application/json''), (''X-Webhook-Secret'', ''s3cret'')]"
          "outbound_headers (office\<lparr>WEBHOOK_SECRET := None\<rparr>)
             = [(''Content-Type'', ''application/json''), (''X-Webhook-Secret'', [])]"
    by (simp_all add: outbound_headers_def or_else_def example_defs)
  have t: "http_posts (trace monday) = []" by (simp add: example_defs)
  show ?thesis
    using outbound_post_carries_secret_header [OF surjective_pairing, of office ada ?ok monday]
          outbound_post_carries_secret_header
            [OF surjective_pairing, of "office\<lparr>WEBHOOK_SECRET := None\<rparr>" ada ?ok monday]
          s u h t
    by simp
qed

subsection \<open>Form ingestion forces source and stage, then logs the new deal\<close>

text \<open>
Claim C7. \<^verbatim>\<open>POST /api/webhook/google-form\<close>. The row the handler asks the store to insert
  has \<^verbatim>\<open>source = 'google_form'\<close> and \<^verbatim>\<open>stage = 'submitted'\<close> whatever the payload holds for
  these two keys, and every other property as the payload has it. When the store accepts
  the insert, the stored deal has the two forced values, the response is 201 with that
  deal, and exactly one log write follows: action \<^verbatim>\<open>form_submission\<close>, referring to the
  new deal's id (the row is in the log table when the store accepts that insert too).
  When the store refuses the deal, the response is 500 and nothing is logged.
\<close>

theorem google_form_forces_source_and_stage:
  assumes run: "google_form req w = (r, w')"
  shows "get_prop (form_row (body req)) ''source'' = Some (JStr ''google_form'')
       \<and> get_prop (form_row (body req)) ''stage'' = Some (JStr ''submitted'')
       \<and> (\<forall>k. k \<noteq> ''source'' \<longrightarrow> k \<noteq> ''stage'' \<longrightarrow>
              get_prop (form_row (body req)) k = get_prop (body req) k)
       \<and> (\<exists>evs. trace w' = trace w @ Insert_deal (form_row (body req)) # evs)
       \<and> (next_fault w = None \<longrightarrow>
            (\<exists>data. business_ideas w' = business_ideas w @ [data]
               \<and> get_prop data ''source'' = Some (JStr ''google_form'')
               \<and> get_prop data ''stage'' = Some (JStr ''submitted'')
               \<and> get_prop data ''id'' \<noteq> None
               \<and> r = reply 201 (Created_body ''Deal created from form'' data)
               \<and> log_writes (trace w') = log_writes (trace w) @ [form_log data]
               \<and> action (form_log data) = ''form_submission''
               \<and> Some (business_idea_id (form_log data)) = get_prop data ''id''
               \<and> (next_fault (w\<lparr>faults := tl (faults w)\<rparr>) = None \<longrightarrow>
                    webhook_logs w'
                      = webhook_logs w
                        @ [\<lparr>entry = form_log data, log_id = Suc (next_id w),
                            triggered_at = clock w\<rparr>])))
       \<and> (\<forall>msg. next_fault w = Some msg \<longrightarrow>
              r = reply 500 (Error_body msg)
              \<and> business_ideas w' = business_ideas w
              \<and> webhook_logs w' = webhook_logs w
              \<and> log_writes (trace w') = log_writes (trace w))"
proof -
  let ?row = "form_row (body req)"
  let ?w0 = "emit (Insert_deal ?row) (w\<lparr>faults := tl (faults w)\<rparr>)"
  let ?data = "with_default ''created_at'' (JNum (int (clock w)))
                 (with_default ''id'' (JNum (int (next_id w))) ?row)"
  let ?w1 = "?w0\<lparr>business_ideas := business_ideas w @ [?data], next_id := Suc (next_id w)\<rparr>"
  have forced: "get_prop ?data ''source'' = Some (JStr ''google_form'')"
               "get_prop ?data ''stage'' = Some (JStr ''submitted'')"
    by (simp_all add: with_default_keeps form_row_forced)
  have idp: "get_prop ?data ''id'' \<noteq> None"
    using with_default_present [of "''id''" "JNum (int (next_id w))" ?row]
    by (auto simp: with_default_keeps)
  show ?thesis
  proof (cases "next_fault w")
    case (Some msg)
    then have "r = reply 500 (Error_body msg)" "w' = ?w0"
      using run by (auto simp: google_form_def insert_deal_def store_call_def catch_500_def)
    then show ?thesis
      using Some by (simp add: form_row_forced form_row_rest emit_def log_writes_append)
  next
    case None
    then have ins: "insert_deal ?row w = (Inr ?data, ?w1)"
      by (simp add: insert_deal_def store_call_def emit_def Let_def)
    have out: "r = reply 201 (Created_body ''Deal created from form'' ?data)"
              "w' = snd (insert_log (form_log ?data) ?w1)"
      using run ins by (auto simp: google_form_def catch_500_def split: prod.splits)
    have tr: "trace w' = trace w @ Insert_deal ?row # [Insert_log (form_log ?data)]"
      unfolding out by (simp add: insert_log_def store_call_def emit_def split: option.splits)
    have lw: "log_writes (trace w') = log_writes (trace w) @ [form_log ?data]"
      unfolding tr by (simp add: log_writes_append)
    have bi: "business_ideas w' = business_ideas w @ [?data]"
      unfolding out by (simp add: insert_log_other_tables emit_def)
    have nf: "next_fault ?w1 = next_fault (w\<lparr>faults := tl (faults w)\<rparr>)"
      by (simp add: next_fault_def emit_def)
    have wl: "next_fault (w\<lparr>faults := tl (faults w)\<rparr>) = None \<longrightarrow>
                webhook_logs w' = webhook_logs w
                  @ [\<lparr>entry = form_log ?data, log_id = Suc (next_id w), triggered_at = clock w\<rparr>]"
      unfolding out using insert_log_accepted [of ?w1 "form_log ?data"] nf
      by (simp add: emit_def)
    have fk: "Some (business_idea_id (form_log ?data)) = get_prop ?data ''id''"
      using idp by (auto simp: form_log_def column_def)
    show ?thesis
      using None out(1) tr lw bi wl fk forced idp
      by (simp add: form_row_forced form_row_rest form_log_def)
  qed
qed


theorem google_form_forces_source_and_stage_witness:
  "business_ideas (snd (google_form
       (ask [(''stage'', JStr ''won''), (''business_name'', JStr ''Zed'')]) monday))
     = [acme,
        [(''stage'', JStr ''submitted''), (''business_name'', JStr ''Zed''),
         (''source'', JStr ''google_form''), (''id'', JNum 2), (''created_at'', JNum 77)]]
   \<and> map (\<lambda>l. (action (entry l), business_idea_id (entry l)))
         (webhook_logs (snd (google_form
            (ask [(''stage'', JStr ''won''), (''business_name'', JStr ''Zed'')]) monday)))
     = [(''form_submission'', JNum 2)]
   \<and> fst (google_form (ask [(''stage'', JStr ''won'')]) (monday\<lparr>faults := [Some ''no such column'']\<rparr>))
     = reply 500 (Error_body ''no such column'')
   \<and> business_ideas (snd (google_form (ask [(''stage'', JStr ''won'')])
         (monday\<lparr>faults := [Some ''no such column'']\<rparr>))) = [acme]"
proof -
  let ?req = "ask [(''stage'', JStr ''won''), (''business_name'', JStr ''Zed'')]"
  let ?bad = "monday\<lparr>faults := [Some ''no such column'']\<rparr>"
  have n: "next_fault monday = None" "next_fault (monday\<lparr>faults := tl (faults monday)\<rparr>) = None"
          "next_fault ?bad = Some ''no such column''"
    by (simp_all add: next_fault_def example_defs)
  have m: "business_ideas monday = [acme]" "webhook_logs monday = []" "business_ideas ?bad = [acme]"
          "next_id monday = 2" "clock monday = 77"
    by (simp_all add: example_defs)
  have ex: "business_ideas (snd (google_form ?req monday))
     = [acme,
        [(''stage'', JStr ''submitted''), (''business_name'', JStr ''Zed''),
         (''source'', JStr ''google_form''), (''id'', JNum 2), (''created_at'', JNum 77)]]"
    by (simp add: google_form_def form_row_def form_log_def model_defs example_defs Let_def)
  show ?thesis
    using google_form_forces_source_and_stage [OF surjective_pairing, of ?req monday]
          google_form_forces_source_and_stage [OF surjective_pairing, of "ask [(''stage'', JStr ''won'')]" ?bad]
          n m ex
    by (auto simp: form_log_def get_prop_def)
qed

subsection \<open>Deleting a deal is idempotent\<close>

text \<open>
Claim C9. For an authenticated \<^verbatim>\<open>DELETE /api/deals/:id\<close> on which the store reports no
  error, the response is the fixed message "Deal deleted successfully", whether or not a
  deal with that id exists; the rows with that id are gone, and the other tables are as
  before. Deleting the same id a second time (the store again reporting no error) gives
  the same response and leaves the three tables as the first delete left them.
\<close>

theorem delete_deal_idempotent:
  assumes auth: "verifyAuth e req w = (Inr u, wa)"
      and ok1: "next_fault w = None"
      and run1: "protected e delete_deal req w = (r1, w1)"
  shows "r1 = reply 200 (Message_body ''Deal deleted successfully'')
       \<and> business_ideas w1
           = filter (\<lambda>d. \<not> has_id (Some (params_id req)) d) (business_ideas w)
       \<and> webhook_logs w1 = webhook_logs w
       \<and> user_profiles w1 = user_profiles w
       \<and> (next_fault w1 = None \<longrightarrow>
            fst (protected e delete_deal req w1) = r1
            \<and> tables (snd (protected e delete_deal req w1)) = tables w1)"
proof -
  have wa: "wa = emit (Auth_getUser (bearer_token req)) w"
    using auth by (rule verifyAuth_accepts)
  have nfa: "next_fault wa = None" using ok1 by (simp add: wa next_fault_def emit_def)
  have first: "(r1, w1) = delete_deal u req wa"
    using run1 auth by (simp add: protected_def)
  note d1 = delete_deal_accepted [OF nfa, of u req]
  have r1: "r1 = reply 200 (Message_body ''Deal deleted successfully'')"
    and w1: "w1 = emit (Delete_deal (params_id req))
                (wa\<lparr>faults := tl (faults wa),
                   business_ideas :=
                     filter (\<lambda>d. \<not> has_id (Some (params_id req)) d) (business_ideas wa)\<rparr>)"
    using first d1 by simp_all
  have t1: "business_ideas w1
              = filter (\<lambda>d. \<not> has_id (Some (params_id req)) d) (business_ideas w)"
           "webhook_logs w1 = webhook_logs w" "user_profiles w1 = user_profiles w"
    by (simp_all add: w1 wa emit_def)
  have second: "next_fault w1 = None \<longrightarrow>
            fst (protected e delete_deal req w1) = r1
            \<and> tables (snd (protected e delete_deal req w1)) = tables w1"
  proof
    assume ok2: "next_fault w1 = None"
    let ?wb = "emit (Auth_getUser (bearer_token req)) w1"
    have nfb: "next_fault ?wb = None" using ok2 by (simp add: next_fault_def emit_def)
    have "protected e delete_deal req w1 = delete_deal u req ?wb"
      using verifyAuth_again [OF auth, of w1] by (simp add: protected_def)
    then show "fst (protected e delete_deal req w1) = r1
            \<and> tables (snd (protected e delete_deal req w1)) = tables w1"
      using delete_deal_accepted [OF nfb, of u req] r1 t1(1)
      by (simp add: tables_def emit_def)
  qed
  show ?thesis using r1 t1 second by simp
qed

theorem delete_deal_idempotent_witness:
  "fst (protected office delete_deal (ask []) monday)
     = reply 200 (Message_body ''Deal deleted successfully'')
   \<and> business_ideas (snd (protected office delete_deal (ask []) monday)) = []
   \<and> fst (protected office delete_deal (ask []) (snd (protected office delete_deal (ask []) monday)))
     = reply 200 (Message_body ''Deal deleted successfully'')
   \<and> tables (snd (protected office delete_deal (ask [])
                    (snd (protected office delete_deal (ask []) monday))))
     = ([], [], [])
   \<and> fst (protected office delete_deal ((ask [])\<lparr>params_id := JNum 5\<rparr>) monday)
     = reply 200 (Message_body ''Deal deleted successfully'')
   \<and> business_ideas (snd (protected office delete_deal ((ask [])\<lparr>params_id := JNum 5\<rparr>) monday))
     = [acme]"
proof -
  have a: "verifyAuth office (ask []) monday = (Inr ada, emit (Auth_getUser ''tok'') monday)"
          "verifyAuth office ((ask [])\<lparr>params_id := JNum 5\<rparr>) monday
             = (Inr ada, emit (Auth_getUser ''tok'') monday)"
    by (simp_all add: model_defs example_defs)
  have n: "next_fault monday = None" by (simp add: next_fault_def example_defs)
  note c1 = delete_deal_idempotent [OF a(1) n surjective_pairing]
  note c2 = delete_deal_idempotent [OF a(2) n surjective_pairing]
  have n1: "next_fault (snd (protected office delete_deal (ask []) monday)) = None"
    by (simp add: model_defs example_defs delete_deal_def)
  have m: "business_ideas monday = [acme]" "webhook_logs monday = []" "user_profiles monday = []"
    by (simp_all add: example_defs)
  have h: "has_id (Some (params_id (ask []))) acme"
          "\<not> has_id (Some (params_id ((ask [])\<lparr>params_id := JNum 5\<rparr>))) acme"
    by (simp_all add: has_id_def get_prop_def example_defs)
  show ?thesis
    using c1 c2 n1 m h by (simp add: tables_def)
qed

subsection \<open>The log listing: at most fifty rows, newest first, joined with their deals\<close>

text \<open>
Claim C8. A successful \<^verbatim>\<open>GET /api/webhooks\<close> (status 200) returns a list of at most 50
  log rows (all of them when there are fewer), sorted by \<^verbatim>\<open>triggered_at\<close> descending; each
  row is a row of the log table paired with the deal its \<^verbatim>\<open>business_idea_id\<close> names, or
  with none when the id is null or names no deal; and no row left out is more recent
  than a row returned.
\<close>

theorem get_webhooks_recent_fifty:
  assumes run: "protected e get_webhooks req w = (r, w')"
      and ok: "status r = 200"
  shows "\<exists>xs. payload r = Logs_body xs
          \<and> length xs \<le> 50
          \<and> length xs = min 50 (length (webhook_logs w))
          \<and> sorted_wrt (\<lambda>a b. triggered_at b \<le> triggered_at a) (map fst xs)
          \<and> (\<forall>(l, d) \<in> set xs.
                l \<in> set (webhook_logs w)
                \<and> d = joined_deal (business_ideas w) l
                \<and> (\<forall>deal. d = Some deal \<longrightarrow>
                      deal \<in> set (business_ideas w)
                      \<and> get_prop deal ''id'' = Some (business_idea_id (entry l)))
                \<and> (d = None \<longrightarrow> business_idea_id (entry l) \<noteq> JNull \<longrightarrow>
                      (\<forall>deal \<in> set (business_ideas w).
                         get_prop deal ''id'' \<noteq> Some (business_idea_id (entry l)))))
          \<and> (\<forall>l \<in> set (webhook_logs w). l \<notin> fst ` set xs \<longrightarrow>
                (\<forall>l' \<in> fst ` set xs. triggered_at l \<le> triggered_at l'))"
proof -
  obtain u w1 where auth: "verifyAuth e req w = (Inr u, w1)"
    using run ok verifyAuth_rejects(1) [of e req w]
    by (cases "verifyAuth e req w") (auto simp: protected_def split: sum.splits)
  have w1: "w1 = emit (Auth_getUser (bearer_token req)) w"
    using auth by (rule verifyAuth_accepts)
  have run': "get_webhooks u req w1 = (r, w')" using run auth by (simp add: protected_def)
  let ?ys = "rev (sort_key triggered_at (webhook_logs w))"
  let ?xs = "map (\<lambda>l. (l, joined_deal (business_ideas w) l)) (take 50 ?ys)"
  have body: "payload r = Logs_body ?xs"
    using get_webhooks_ok [OF run' ok] by (simp add: w1 emit_def)
  have fsts: "map fst ?xs = take 50 ?ys" by (simp add: comp_def)
  have sorted_all: "sorted_wrt (\<lambda>a b. triggered_at b \<le> triggered_at a) ?ys"
    by (rule sorted_desc_rev_sort_key)
  have len: "length ?xs = min 50 (length (webhook_logs w))" by (simp add: min.commute)
  have srt: "sorted_wrt (\<lambda>a b. triggered_at b \<le> triggered_at a) (map fst ?xs)"
    unfolding fsts using sorted_all by (rule sorted_wrt_take)
  have mem: "\<forall>(l, d) \<in> set ?xs.
                l \<in> set (webhook_logs w)
                \<and> d = joined_deal (business_ideas w) l
                \<and> (\<forall>deal. d = Some deal \<longrightarrow>
                      deal \<in> set (business_ideas w)
                      \<and> get_prop deal ''id'' = Some (business_idea_id (entry l)))
                \<and> (d = None \<longrightarrow> business_idea_id (entry l) \<noteq> JNull \<longrightarrow>
                      (\<forall>deal \<in> set (business_ideas w).
                         get_prop deal ''id'' \<noteq> Some (business_idea_id (entry l))))"
    using joined_deal_found joined_deal_missing
    by (auto dest!: in_set_takeD)
  have rest: "\<forall>l \<in> set (webhook_logs w). l \<notin> fst ` set ?xs \<longrightarrow>
                (\<forall>l' \<in> fst ` set ?xs. triggered_at l \<le> triggered_at l')"
  proof (intro ballI impI)
    fix l l'
    assume l: "l \<in> set (webhook_logs w)" and out: "l \<notin> fst ` set ?xs"
       and l': "l' \<in> fst ` set ?xs"
    have set_fst: "fst ` set ?xs = set (take 50 ?ys)"
      using fsts by (metis set_map)
    have "l \<in> set ?ys" using l by simp
    then have "l \<in> set (take 50 ?ys) \<union> set (drop 50 ?ys)"
      by (metis append_take_drop_id set_append)
    then have "l \<in> set (drop 50 ?ys)" using out set_fst by blast
    moreover have "l' \<in> set (take 50 ?ys)" using l' set_fst by blast
    ultimately show "triggered_at l \<le> triggered_at l'"
      using sorted_wrt_take_drop [OF sorted_all] by blast
  qed
  show ?thesis
    using body len srt mem rest by (intro exI [of _ ?xs]) simp
qed


theorem get_webhooks_recent_fifty_witness:
  "payload (fst (protected office get_webhooks (ask []) tuesday))
     = Logs_body [(logged (JNum 1) 9, Some acme), (logged (JNum 4) 7, None), (logged JNull 5, None)]
   \<and> (\<exists>xs. payload (fst (protected office get_webhooks (ask []) busy)) = Logs_body xs
            \<and> length xs = 50)"
proof -
  have st: "status (fst (protected office get_webhooks (ask []) tuesday)) = 200"
           "status (fst (protected office get_webhooks (ask []) busy)) = 200"
    by (simp_all add: model_defs example_defs get_webhooks_def tuesday_def busy_def)
  have len: "length (webhook_logs busy) = 51" by (simp add: busy_def)
  have ev: "payload (fst (protected office get_webhooks (ask []) tuesday))
     = Logs_body [(logged (JNum 1) 9, Some acme), (logged (JNum 4) 7, None), (logged JNull 5, None)]"
    by (simp add: model_defs example_defs get_webhooks_def tuesday_def logged_def)
  show ?thesis
    using get_webhooks_recent_fifty [OF surjective_pairing st(1)]
          get_webhooks_recent_fifty [OF surjective_pairing st(2)] len ev
    by auto
qed

subsection \<open>The admin-only listing without a profile row\<close>

text \<open>
Claim C1. The claim asks for 403 when the caller of \<^verbatim>\<open>GET /api/users\<close> has no profile
  row. In \<^verbatim>\<open>server.js\<close> the handler reads \<^verbatim>\<open>profile.role\<close> without a check of \<^verbatim>\<open>profile\<close>:
  for an authenticated caller without a row in \<^verbatim>\<open>user_profiles\<close> the read throws and the
  response is 500 with the message of the \<^verbatim>\<open>TypeError\<close>. The revision \<^verbatim>\<open>part_001\<close> checks
  \<^verbatim>\<open>!profile\<close> first and meets the claim (\<open>get_users_guarded_spec\<close>: 403 without a row or
  with another role; with role \<^verbatim>\<open>admin\<close> and a listing read that succeeds, all profiles
  ordered by username).
\<close>

theorem get_users_missing_profile_is_500:
  "protected office get_users (ask []) monday
     = (reply 500 (Error_body null_role_error),
        emit (Select_from User_profiles) (emit (Auth_getUser ''tok'') monday))"
  by (simp add: model_defs example_defs get_users_def)

subsection \<open>The profile fetch without a profile row\<close>

text \<open>
  Claim C2. The claim asks that \<^verbatim>\<open>GET /api/user/profile\<close> never answers an authenticated
  caller with an error. In \<^verbatim>\<open>server.js\<close> the handler throws the error of the read: for an
  authenticated caller without a row in \<^verbatim>\<open>user_profiles\<close> the response is 500 with the
  store's message. The revision \<^verbatim>\<open>part_001\<close> ("ROBUST VERSION") meets the claim
  (\<open>get_user_profile_robust_spec\<close>: always 200 with a profile; when the read finds no
  single row or fails, the profile is the default one, with the local part of the email
  as username and role \<^verbatim>\<open>user\<close>, whether or not its insert succeeds).
\<close>

theorem get_user_profile_missing_profile_is_500:
  "protected office get_user_profile (ask []) monday
     = (reply 500 (Error_body ''JSON object requested, multiple (or no) rows returned''),
        emit (Select_from User_profiles) (emit (Auth_getUser ''tok'') monday))"
  by (simp add: model_defs example_defs get_user_profile_def)

end
